theory Spec2Isabelle
  imports Complex_Main "HOL-Library.Sublist"
begin

section \<open>Numbers, errors and geometry\<close>

text \<open>
  Coordinates of text blocks are Python floats and are modelled as \<^typ>\<open>real\<close> numbers with
  exact arithmetic; pixel coordinates of detections are Python integers and are modelled as
  \<^typ>\<open>int\<close>. The exceptions the modelled functions can raise are values of \<open>py_error\<close>.
\<close>

datatype py_error = ZeroDivisionError | IndexError | KeyError

record 'a bbox =
  x0 :: 'a
  y0 :: 'a
  x1 :: 'a
  y1 :: 'a

text \<open>Python's \<open>round(x)\<close> rounds to the nearest integer, ties to the even one.\<close>

definition py_round :: "real \<Rightarrow> int" where
  "py_round x =
     (let f = \<lfloor>x\<rfloor>; d = x - of_int f
      in if d < 1 / 2 then f else if 1 / 2 < d then f + 1 else if even f then f else f + 1)"

text \<open>\<open>round(x, 2)\<close>, \<open>round(x, 1)\<close> and \<open>round(x, 3)\<close>.\<close>

definition round_to :: "nat \<Rightarrow> real \<Rightarrow> real" where
  "round_to n x = of_int (py_round (x * 10 ^ n)) / 10 ^ n"

section \<open>Text blocks and rows (extract_layout.py)\<close>

record block =
  block_text :: string
  bbox :: "real bbox"
  font_size :: real
  font_name :: string
  is_bold :: bool
  block_id :: nat

record row =
  blocks :: "block list"
  y_min :: real
  y_max :: real
  source :: "string option"
  row_type :: "string option"

subsection \<open>map_row_to_grid\<close>

text \<open>
  The loop over \<open>enumerate(columns)\<close>: the state is \<open>(start_col, end_col)\<close>; a column
  \<open>(col_x0, col_x1)\<close> overlaps the block when \<open>block_x0 < col_x1 and block_x1 > col_x0\<close>.
\<close>

definition overlaps_column :: "block \<Rightarrow> real \<times> real \<Rightarrow> bool" where
  "overlaps_column b c = (x0 (bbox b) < snd c \<and> x1 (bbox b) > fst c)"

fun scan_columns ::
  "block \<Rightarrow> (real \<times> real) list \<Rightarrow> nat \<Rightarrow> nat option \<times> nat option \<Rightarrow> nat option \<times> nat option"
where
  "scan_columns b [] i se = se"
| "scan_columns b (c # cols) i (s, e) =
     scan_columns b cols (Suc i)
       (if overlaps_column b c then ((if s = None then Some i else s), Some i) else (s, e))"

fun place_blocks :: "block list \<Rightarrow> (real \<times> real) list \<Rightarrow> block option list \<Rightarrow> block option list"
where
  "place_blocks [] columns cells = cells"
| "place_blocks (b # bs) columns cells =
     place_blocks bs columns
       (case fst (scan_columns b columns 0 (None, None)) of
          None \<Rightarrow> cells
        | Some start_col \<Rightarrow> cells[start_col := Some b])"

definition map_row_to_grid :: "row \<Rightarrow> (real \<times> real) list \<Rightarrow> block option list" where
  "map_row_to_grid r columns =
     (if columns = [] then []
      else place_blocks (blocks r) columns (replicate (length columns) None))"

text \<open>
  Specification side: column \<open>i\<close> is the first column of the grid that the block overlaps.
\<close>

definition is_first_overlap :: "block \<Rightarrow> (real \<times> real) list \<Rightarrow> nat \<Rightarrow> bool" where
  "is_first_overlap b columns i =
     (i < length columns \<and> overlaps_column b (columns ! i)
      \<and> (\<forall>j < i. \<not> overlaps_column b (columns ! j)))"

definition count_blocks :: "block option list \<Rightarrow> nat" where
  "count_blocks cells = length (filter (\<lambda>c. c \<noteq> None) cells)"

section \<open>Control detection (detect_controls.py)\<close>

text \<open>
  A detection is the dictionary the detectors build: \<open>type\<close>, \<open>bbox\<close> (pixels) and
  \<open>confidence\<close> always; \<open>checked\<close> for checkboxes; \<open>center\<close>, \<open>radius\<close> and
  \<open>selected\<close> for radio buttons. The combined extractor later adds \<open>features\<close>,
  \<open>pdf_bbox\<close> and, when a label is found, \<open>label_block_id\<close> and \<open>label_text\<close>.
  A key that a dictionary does not hold is \<open>None\<close>.
\<close>

datatype control_type = Checkbox | Radio | Input

record control_features =
  width_px :: int
  height_px :: int
  aspect_ratio :: real
  width_pt :: real
  height_pt :: real

record control =
  ctype :: control_type
  cbbox :: "int bbox"
  confidence :: real
  checked :: "bool option"
  center :: "(int \<times> int) option"
  radius :: "int option"
  selected :: "bool option"
  features :: "control_features option"
  pdf_bbox :: "real bbox option"
  label_block_id :: "nat option"
  label_text :: "string option"

subsection \<open>remove_overlapping\<close>

text \<open>
  The IoU of two boxes is computed only when their intersection is a proper rectangle
  (\<open>x0 < x1 and y0 < y1\<close>); \<open>box_iou\<close> is \<open>None\<close> otherwise.
\<close>

definition box_iou :: "int bbox \<Rightarrow> int bbox \<Rightarrow> real option" where
  "box_iou b k =
     (let ix0 = max (x0 b) (x0 k); iy0 = max (y0 b) (y0 k);
          ix1 = min (x1 b) (x1 k); iy1 = min (y1 b) (y1 k)
      in if ix0 < ix1 \<and> iy0 < iy1 then
           (let intersection = (ix1 - ix0) * (iy1 - iy0);
                area1 = (x1 b - x0 b) * (y1 b - y0 b);
                area2 = (x1 k - x0 k) * (y1 k - y0 k);
                union = area1 + area2 - intersection
            in Some (if union > 0 then of_int intersection / of_int union else 0))
         else None)"

definition overlaps :: "real \<Rightarrow> control \<Rightarrow> control \<Rightarrow> bool" where
  "overlaps iou_threshold c kept =
     (case box_iou (cbbox c) (cbbox kept) of None \<Rightarrow> False | Some v \<Rightarrow> v > iou_threshold)"

fun dedup_loop :: "real \<Rightarrow> control list \<Rightarrow> control list \<Rightarrow> control list" where
  "dedup_loop th keep [] = keep"
| "dedup_loop th keep (c # cs) =
     dedup_loop th (if list_ex (overlaps th c) keep then keep else keep @ [c]) cs"

text \<open>
  \<open>sorted(controls, key=confidence, reverse=True)\<close> is stable: detections of equal
  confidence keep their order.
\<close>

definition sort_by_confidence :: "control list \<Rightarrow> control list" where
  "sort_by_confidence controls = sort_key (\<lambda>c. - confidence c) controls"

definition remove_overlapping :: "control list \<Rightarrow> real \<Rightarrow> control list" where
  "remove_overlapping controls iou_threshold =
     (if controls = [] then controls
      else dedup_loop iou_threshold [] (sort_by_confidence controls))"

subsection \<open>detect_radio_buttons\<close>

text \<open>
  The circle detector and the ring masks are OpenCV's. A candidate is one circle of
  \<open>cv2.HoughCircles\<close> (centre and radius as the integers the code converts them to)
  together with the four pixel counts the code measures on the binary image under its masks;
  \<open>None\<close> from the detector is the empty list of candidates.
\<close>

record circle_obs =
  circ_x :: int
  circ_y :: int
  circ_r :: int
  perimeter_pixels :: nat
  perimeter_area :: nat
  center_pixels :: nat
  center_area :: nat

definition radio_of_circle :: "int \<Rightarrow> int \<Rightarrow> circle_obs \<Rightarrow> control option" where
  "radio_of_circle img_width img_height c =
     (let cx = circ_x c; cy = circ_y c; r = circ_r c;
          bx0 = cx - r; by0 = cy - r; bx1 = cx + r; by1 = cy + r
      in if bx0 < 0 \<or> by0 < 0 \<or> bx1 \<ge> img_width \<or> by1 \<ge> img_height then None
         else
           (let perimeter_ratio = (if perimeter_area c > 0
                                   then real (perimeter_pixels c) / real (perimeter_area c) else 0);
                center_ratio = (if center_area c > 0
                                then real (center_pixels c) / real (center_area c) else 0);
                has_border = (perimeter_ratio > 25 / 100);
                is_hollow = (center_ratio < 35 / 100);
                is_filled = (center_ratio > 5 / 10)
            in if has_border \<and> (is_hollow \<or> is_filled) then
                 Some \<lparr>ctype = Radio,
                       cbbox = \<lparr>x0 = bx0, y0 = by0, x1 = bx1, y1 = by1\<rparr>,
                       confidence = round_to 2 (min (perimeter_ratio + 3 / 10) 1),
                       checked = None, center = Some (cx, cy), radius = Some r,
                       selected = Some is_filled, features = None, pdf_bbox = None,
                       label_block_id = None, label_text = None\<rparr>
               else None))"

definition detect_radio_buttons :: "int \<Rightarrow> int \<Rightarrow> circle_obs list \<Rightarrow> control list" where
  "detect_radio_buttons img_width img_height circles =
     List.map_filter (radio_of_circle img_width img_height) circles"

subsection \<open>detect_checkboxes and detect_input_boxes\<close>

text \<open>
  A contour candidate carries what OpenCV reports for it: the bounding rectangle, the number
  of vertices of the polygon approximation, and the measurements the code takes on the image
  (sizes and mean intensities of the region of interest and of its centre, the mean of the
  four edge means, the contour's area).
\<close>

record contour_obs =
  rect_x :: int
  rect_y :: int
  rect_w :: int
  rect_h :: int
  approx_len :: nat
  roi_size :: nat
  center_size :: nat
  center_mean :: real
  edge_mean :: real
  contour_area :: real

definition checkbox_of_contour :: "int \<Rightarrow> int \<Rightarrow> contour_obs \<Rightarrow> control option" where
  "checkbox_of_contour min_size max_size c =
     (let x = rect_x c; y = rect_y c; w = rect_w c; h = rect_h c
      in if w < min_size \<or> h < min_size \<or> w > max_size \<or> h > max_size then None
         else
           (let aspect = (if h > 0 then real_of_int w / real_of_int h else 0)
            in if aspect < 7 / 10 \<or> aspect > 14 / 10 then None
               else if approx_len c < 4 \<or> approx_len c > 8 then None
               else if roi_size c = 0 then None
               else
                 (let border_width = max 2 (min w h div 4)
                  in if w > 2 * border_width \<and> h > 2 * border_width \<and> center_size c > 0
                        \<and> edge_mean c < center_mean c + 30
                     then Some \<lparr>ctype = Checkbox,
                                cbbox = \<lparr>x0 = x, y0 = y, x1 = x + w, y1 = y + h\<rparr>,
                                confidence = round_to 2 (7 / 10),
                                checked = Some (center_mean c < 220),
                                center = None, radius = None, selected = None,
                                features = None, pdf_bbox = None,
                                label_block_id = None, label_text = None\<rparr>
                     else None)))"

definition detect_checkboxes :: "int \<Rightarrow> int \<Rightarrow> contour_obs list \<Rightarrow> control list" where
  "detect_checkboxes min_size max_size contours =
     remove_overlapping (List.map_filter (checkbox_of_contour min_size max_size) contours)
       (3 / 10)"

definition input_of_contour :: "int \<Rightarrow> int \<Rightarrow> int \<Rightarrow> contour_obs \<Rightarrow> control option" where
  "input_of_contour min_width min_height max_height c =
     (let x = rect_x c; y = rect_y c; w = rect_w c; h = rect_h c
      in if w < min_width \<or> h < min_height \<or> h > max_height then None
         else
           (let aspect = (if h > 0 then real_of_int w / real_of_int h else 0)
            in if aspect < 2 then None
               else if contour_area c < 100 then None
               else if 4 \<le> approx_len c \<and> approx_len c \<le> 8 then
                 (let rect_area = w * h;
                      extent = (if rect_area > 0 then contour_area c / real_of_int rect_area else 0)
                  in if extent > 3 / 10 then
                       Some \<lparr>ctype = Input,
                             cbbox = \<lparr>x0 = x, y0 = y, x1 = x + w, y1 = y + h\<rparr>,
                             confidence = round_to 2 extent,
                             checked = None, center = None, radius = None, selected = None,
                             features = None, pdf_bbox = None,
                             label_block_id = None, label_text = None\<rparr>
                     else None)
               else None))"

definition detect_input_boxes :: "int \<Rightarrow> int \<Rightarrow> int \<Rightarrow> contour_obs list \<Rightarrow> control list" where
  "detect_input_boxes min_width min_height max_height contours =
     remove_overlapping
       (List.map_filter (input_of_contour min_width min_height max_height) contours) (5 / 10)"

section \<open>Rows and position clustering (extract_layout.py)\<close>

subsection \<open>group_into_rows\<close>

definition y_center :: "block \<Rightarrow> real" where
  "y_center b = (y0 (bbox b) + y1 (bbox b)) / 2"

text \<open>
  The row dictionary built when a row is closed: its blocks sorted by \<open>x0\<close> (Python's sort
  is stable), the rounded vertical extent, and neither a \<open>source\<close> nor a \<open>type\<close> key.
\<close>

definition make_row :: "block list \<Rightarrow> row" where
  "make_row current_row =
     \<lparr>blocks = sort_key (\<lambda>b. x0 (bbox b)) current_row,
      y_min = round_to 2 (Min (set (map (\<lambda>b. y0 (bbox b)) current_row))),
      y_max = round_to 2 (Max (set (map (\<lambda>b. y1 (bbox b)) current_row))),
      source = None, row_type = None\<rparr>"

fun rows_loop :: "real \<Rightarrow> block list \<Rightarrow> block list \<Rightarrow> real \<Rightarrow> row list \<Rightarrow> row list" where
  "rows_loop tol [] current_row current_y_center rows =
     (if current_row \<noteq> [] then rows @ [make_row current_row] else rows)"
| "rows_loop tol (b # bs) current_row current_y_center rows =
     (if \<bar>y_center b - current_y_center\<bar> \<le> tol then
        (let current_row' = current_row @ [b]
         in rows_loop tol bs current_row'
              (sum_list (map y_center current_row') / real (length current_row')) rows)
      else rows_loop tol bs [b] (y_center b) (rows @ [make_row current_row]))"

definition group_into_rows :: "block list \<Rightarrow> real \<Rightarrow> row list" where
  "group_into_rows blks y_tolerance =
     (case blks of [] \<Rightarrow> [] | b # bs \<Rightarrow> rows_loop y_tolerance bs [b] (y_center b) [])"

subsection \<open>cluster_positions\<close>

text \<open>
  The clustering loop shared by \<open>cluster_positions\<close> and by the helper of the same name
  inside \<open>build_cell_grid_from_lines\<close>: a sorted position joins the last cluster when it is
  within the tolerance of that cluster's last member, and opens a new cluster otherwise.
\<close>

fun cluster_loop :: "'a::linordered_idom \<Rightarrow> 'a list \<Rightarrow> 'a list list \<Rightarrow> 'a list list" where
  "cluster_loop tol [] clusters = clusters"
| "cluster_loop tol (x # xs) clusters =
     cluster_loop tol xs
       (if \<bar>x - last (last clusters)\<bar> \<le> tol then butlast clusters @ [last clusters @ [x]]
        else clusters @ [[x]])"

definition cluster_groups :: "'a::linordered_idom \<Rightarrow> 'a list \<Rightarrow> 'a list list" where
  "cluster_groups tol xs = (case sort xs of [] \<Rightarrow> [] | x # rest \<Rightarrow> cluster_loop tol rest [[x]])"

definition cluster_positions :: "real list \<Rightarrow> real \<Rightarrow> real list" where
  "cluster_positions xs tolerance =
     (if xs = [] then []
      else map (\<lambda>cluster. sum_list cluster / real (length cluster)) (cluster_groups tolerance xs))"

section \<open>Table lines, cell grids and spans (detect_controls.py)\<close>

record hline =
  line_y :: int
  line_x0 :: int
  line_x1 :: int

record vline =
  line_x :: int
  line_y0 :: int
  line_y1 :: int

text \<open>
  A cell of a grid; the key \<open>content\<close> exists only after \<open>assign_text_to_cells\<close> has
  initialised it.
\<close>

record cell =
  cell_row :: nat
  cell_col :: nat
  cell_bbox :: "int bbox"
  content :: "block list option"

record cell_grid =
  row_boundaries :: "int list"
  col_boundaries :: "int list"
  num_rows :: nat
  num_cols :: nat
  cells :: "cell list list"

record span =
  span_row :: nat
  span_col :: nat
  rowspan :: nat
  colspan :: nat
  span_content :: "block list"
  span_bbox :: "int bbox"
  is_empty :: bool

subsection \<open>build_cell_grid_from_lines\<close>

text \<open>\<open>int(x)\<close> on a float truncates towards zero.\<close>

definition int_trunc :: "real \<Rightarrow> int" where
  "int_trunc x = (if x \<ge> 0 then \<lfloor>x\<rfloor> else \<lceil>x\<rceil>)"

definition cluster_centers :: "int list \<Rightarrow> int \<Rightarrow> int list" where
  "cluster_centers positions tolerance =
     (if positions = [] then []
      else map (\<lambda>c. int_trunc (real_of_int (sum_list c) / real (length c)))
             (cluster_groups tolerance positions))"

definition build_cell_grid_from_lines :: "hline list \<Rightarrow> vline list \<Rightarrow> int \<Rightarrow> cell_grid option"
where
  "build_cell_grid_from_lines h_lines v_lines tolerance =
     (if h_lines = [] \<or> v_lines = [] then None
      else
        (let rb = cluster_centers (map line_y h_lines) tolerance;
             cb = cluster_centers (map line_x v_lines) tolerance
         in if length rb < 2 \<or> length cb < 2 then None
            else Some
              \<lparr>row_boundaries = rb, col_boundaries = cb,
               num_rows = length rb - 1, num_cols = length cb - 1,
               cells =
                 map (\<lambda>row_idx.
                   map (\<lambda>col_idx.
                     \<lparr>cell_row = row_idx, cell_col = col_idx,
                      cell_bbox = \<lparr>x0 = cb ! col_idx, y0 = rb ! row_idx,
                                   x1 = cb ! (col_idx + 1), y1 = rb ! (row_idx + 1)\<rparr>,
                      content = None\<rparr>)
                     [0 ..< length cb - 1])
                   [0 ..< length rb - 1]\<rparr>))"

subsection \<open>assign_text_to_cells\<close>

definition cell_contains :: "cell \<Rightarrow> real \<Rightarrow> real \<Rightarrow> bool" where
  "cell_contains c cx cy =
     (real_of_int (x0 (cell_bbox c)) \<le> cx \<and> cx \<le> real_of_int (x1 (cell_bbox c))
      \<and> real_of_int (y0 (cell_bbox c)) \<le> cy \<and> cy \<le> real_of_int (y1 (cell_bbox c)))"

text \<open>
  The two nested loops with their \<open>break\<close>: the block is appended to the content of the first
  cell, in row-major order, that contains its centre. The flag says whether it has been placed.
\<close>

fun place_in_row :: "block \<Rightarrow> real \<Rightarrow> real \<Rightarrow> cell list \<Rightarrow> cell list \<times> bool" where
  "place_in_row b cx cy [] = ([], False)"
| "place_in_row b cx cy (c # cs) =
     (if cell_contains c cx cy
      then (c\<lparr>content := map_option (\<lambda>xs. xs @ [b]) (content c)\<rparr> # cs, True)
      else (let (cs', placed) = place_in_row b cx cy cs in (c # cs', placed)))"

fun place_in_cells :: "block \<Rightarrow> real \<Rightarrow> real \<Rightarrow> cell list list \<Rightarrow> cell list list" where
  "place_in_cells b cx cy [] = []"
| "place_in_cells b cx cy (r # rs) =
     (let (r', placed) = place_in_row b cx cy r
      in if placed then r' # rs else r' # place_in_cells b cx cy rs)"

definition assign_block :: "real \<Rightarrow> cell list list \<Rightarrow> block \<Rightarrow> cell list list" where
  "assign_block scale_factor cs b =
     (let bx0 = x0 (bbox b) * scale_factor; by0 = y0 (bbox b) * scale_factor;
          bx1 = x1 (bbox b) * scale_factor; by1 = y1 (bbox b) * scale_factor
      in place_in_cells b ((bx0 + bx1) / 2) ((by0 + by1) / 2) cs)"

definition assign_text_to_cells :: "cell_grid option \<Rightarrow> block list \<Rightarrow> real \<Rightarrow> cell_grid option"
where
  "assign_text_to_cells grid text_blocks scale_factor =
     (case grid of
        None \<Rightarrow> None
      | Some g \<Rightarrow>
          if text_blocks = [] then Some g
          else Some (g\<lparr>cells :=
                 foldl (assign_block scale_factor)
                   (map (map (\<lambda>c. c\<lparr>content := Some []\<rparr>)) (cells g)) text_blocks\<rparr>))"

subsection \<open>detect_spans\<close>

definition cell_content :: "cell list list \<Rightarrow> nat \<Rightarrow> nat \<Rightarrow> py_error + block list" where
  "cell_content cs r c =
     (if r < length cs \<and> c < length (cs ! r)
      then (case content (cs ! r ! c) of None \<Rightarrow> Inl KeyError | Some xs \<Rightarrow> Inr xs)
      else Inl IndexError)"

text \<open>
  The scanning loops \<open>for check_row in range(row_idx + 1, num_rows)\<close> and
  \<open>for check_col in range(col_idx + 1, num_cols)\<close>: count the cells without content until
  the first cell with content.
\<close>

fun count_empty :: "(nat \<Rightarrow> py_error + block list) \<Rightarrow> nat list \<Rightarrow> nat \<Rightarrow> py_error + nat" where
  "count_empty get [] n = Inr n"
| "count_empty get (i # rest) n =
     (case get i of
        Inl e \<Rightarrow> Inl e
      | Inr xs \<Rightarrow> if xs = [] then count_empty get rest (n + 1) else Inr n)"

text \<open>
  \<open>consumed[r][c] = True\<close> over the rectangle of the span. The scans stop at the last row and
  column of the grid, so the rectangle lies inside the matrix and no index is out of range.
\<close>

definition mark_consumed :: "bool list list \<Rightarrow> nat \<Rightarrow> nat \<Rightarrow> nat \<Rightarrow> nat \<Rightarrow> bool list list" where
  "mark_consumed consumed row_idx col_idx rs cs =
     fold (\<lambda>r m. fold (\<lambda>c m'. m'[r := (m' ! r)[c := True]]) [col_idx ..< col_idx + cs] m)
       [row_idx ..< row_idx + rs] consumed"

fun span_cols ::
  "cell list list \<Rightarrow> nat \<Rightarrow> nat \<Rightarrow> nat \<Rightarrow> nat list \<Rightarrow> bool list list \<times> span list
     \<Rightarrow> py_error + (bool list list \<times> span list)"
where
  "span_cols cs nr nc row_idx [] st = Inr st"
| "span_cols cs nr nc row_idx (col_idx # rest) (consumed, spans) =
     (if consumed ! row_idx ! col_idx then span_cols cs nr nc row_idx rest (consumed, spans)
      else if \<not> (row_idx < length cs \<and> col_idx < length (cs ! row_idx)) then Inl IndexError
      else
        (let c = cs ! row_idx ! col_idx
         in case content c of
              None \<Rightarrow> Inl KeyError
            | Some cont \<Rightarrow>
                (case (if cont \<noteq> []
                       then count_empty (\<lambda>r. cell_content cs r col_idx) [row_idx + 1 ..< nr] 1
                       else Inr 1) of
                   Inl e \<Rightarrow> Inl e
                 | Inr rs \<Rightarrow>
                     (case (if cont \<noteq> []
                            then count_empty (\<lambda>k. cell_content cs row_idx k)
                                   [col_idx + 1 ..< nc] 1
                            else Inr 1) of
                        Inl e \<Rightarrow> Inl e
                      | Inr csp \<Rightarrow>
                          span_cols cs nr nc row_idx rest
                            (mark_consumed consumed row_idx col_idx rs csp,
                             spans @ [\<lparr>span_row = row_idx, span_col = col_idx,
                                       rowspan = rs, colspan = csp, span_content = cont,
                                       span_bbox = cell_bbox c,
                                       is_empty = (length cont = 0)\<rparr>])))))"

fun span_rows ::
  "cell list list \<Rightarrow> nat \<Rightarrow> nat \<Rightarrow> nat list \<Rightarrow> bool list list \<times> span list
     \<Rightarrow> py_error + (bool list list \<times> span list)"
where
  "span_rows cs nr nc [] st = Inr st"
| "span_rows cs nr nc (row_idx # rest) st =
     (case span_cols cs nr nc row_idx [0 ..< nc] st of
        Inl e \<Rightarrow> Inl e
      | Inr st' \<Rightarrow> span_rows cs nr nc rest st')"

definition detect_spans :: "cell_grid option \<Rightarrow> py_error + span list" where
  "detect_spans grid =
     (case grid of
        None \<Rightarrow> Inr []
      | Some g \<Rightarrow>
          (let cs = cells g;
               nr = length cs;
               nc = (if cs = [] then 0 else length (hd cs));
               consumed = replicate nr (replicate nc False)
           in case span_rows cs nr nc [0 ..< nr] (consumed, []) of
                Inl e \<Rightarrow> Inl e
              | Inr st \<Rightarrow> Inr (snd st)))"

text \<open>The set of \<open>(row, col)\<close> cells that a span covers.\<close>

definition covers :: "span \<Rightarrow> nat \<times> nat \<Rightarrow> bool" where
  "covers s rc =
     (span_row s \<le> fst rc \<and> fst rc < span_row s + rowspan s
      \<and> span_col s \<le> snd rc \<and> snd rc < span_col s + colspan s)"

section \<open>Page classification (extract_layout.py)\<close>

datatype page_kind = Form | Table | Text

text \<open>
  The \<open>signals\<close> dictionary of a classification is empty when the page has no blocks
  (\<open>None\<close> here) and holds the six rounded signals otherwise.
\<close>

record page_signals =
  control_count :: nat
  column_count :: nat
  text_density :: real
  avg_width_ratio :: real
  alignment_score :: real
  block_count :: nat

record classification =
  page_type :: page_kind
  signals :: "page_signals option"
  reason :: string

text \<open>
  \<open>Counter(xs)\<close>: the distinct values of a list with the number of times each occurs. Only
  the counts are used, so the order of the entries does not matter.
\<close>

definition counter :: "'a list \<Rightarrow> ('a \<times> nat) list" where
  "counter xs = map (\<lambda>v. (v, count_list xs v)) (remdups xs)"

text \<open>The signals, as the function computes them before rounding.\<close>

definition column_count_of :: "block list \<Rightarrow> real list \<Rightarrow> nat" where
  "column_count_of blks columns =
     (if columns = [] then 1
      else
        (let x_positions = map (\<lambda>b. py_round (x0 (bbox b) / 10) * 10) blks;
             significant_cols = length (filter (\<lambda>vc. snd vc \<ge> 3) (counter x_positions))
         in max 1 (significant_cols div 3)))"

definition text_density_of :: "block list \<Rightarrow> real \<Rightarrow> real \<Rightarrow> real" where
  "text_density_of blks page_width page_height =
     real (length blks) / (page_width * page_height / 10000)"

definition width_ratio_of :: "block list \<Rightarrow> real \<Rightarrow> real" where
  "width_ratio_of blks page_width =
     (let block_widths = map (\<lambda>b. x1 (bbox b) - x0 (bbox b)) blks;
          avg_width = (if block_widths \<noteq> []
                       then sum_list block_widths / real (length block_widths) else 0)
      in if page_width > 0 then avg_width / page_width else 0)"

definition alignment_score_of :: "block list \<Rightarrow> real" where
  "alignment_score_of blks =
     (let x_starts = map (\<lambda>b. py_round (x0 (bbox b))) blks;
          aligned_blocks = sum_list (filter (\<lambda>c. c \<ge> 3) (map snd (counter x_starts)))
      in if blks \<noteq> [] then real aligned_blocks / real (length blks) else 0)"

text \<open>
  The division \<open>len(blocks) / (page_area / 10000)\<close> raises when the page area is zero and the
  page has blocks.
\<close>

definition classify_page_type ::
  "block list \<Rightarrow> real list \<Rightarrow> real \<Rightarrow> real \<Rightarrow> nat \<Rightarrow> py_error + classification"
where
  "classify_page_type blks columns page_width page_height n_controls =
     (if blks = [] then Inr \<lparr>page_type = Text, signals = None, reason = ''no blocks''\<rparr>
      else
        (let page_area = page_width * page_height;
             has_controls = (n_controls > 0);
             n_columns = column_count_of blks columns
         in if page_area / 10000 = 0 then Inl ZeroDivisionError
            else
              (let density = text_density_of blks page_width page_height;
                   width_ratio = width_ratio_of blks page_width;
                   alignment = alignment_score_of blks;
                   sig = Some \<lparr>control_count = n_controls, column_count = n_columns,
                               text_density = round_to 3 density,
                               avg_width_ratio = round_to 3 width_ratio,
                               alignment_score = round_to 3 alignment,
                               block_count = length blks\<rparr>
               in if n_controls \<ge> 2 then
                    Inr \<lparr>page_type = Form, signals = sig, reason = ''has_controls''\<rparr>
                  else if density > 5 \<and> \<not> has_controls then
                    Inr \<lparr>page_type = Text, signals = sig,
                         reason = ''high_density_no_controls''\<rparr>
                  else if n_columns \<ge> 2 \<and> \<not> has_controls then
                    Inr \<lparr>page_type = Text, signals = sig, reason = ''multi_column''\<rparr>
                  else if alignment > 4 / 10 \<and> width_ratio < 6 / 10 \<and> density < 5 then
                    Inr \<lparr>page_type = Form, signals = sig, reason = ''grid_alignment''\<rparr>
                  else if width_ratio > 7 / 10 \<and> density > 5 / 10 then
                    Inr \<lparr>page_type = Text, signals = sig, reason = ''prose_layout''\<rparr>
                  else Inr \<lparr>page_type = Form, signals = sig, reason = ''default''\<rparr>)))"

section \<open>Control filtering and label association (combined_extractor.py)\<close>

text \<open>
  The centre of a detection in PDF points,
  \<open>(bbox["x0"] + bbox["x1"]) / 2 / scale_factor\<close>. The functions below divide by the scale
  factor for every detection they look at, so each raises \<open>ZeroDivisionError\<close> when it is
  given at least one detection and a scale factor of zero; the helpers are used after that
  check.
\<close>

definition ctrl_center_x :: "control \<Rightarrow> real \<Rightarrow> real" where
  "ctrl_center_x c scale_factor =
     real_of_int (x0 (cbbox c) + x1 (cbbox c)) / 2 / scale_factor"

definition ctrl_center_y :: "control \<Rightarrow> real \<Rightarrow> real" where
  "ctrl_center_y c scale_factor =
     real_of_int (y0 (cbbox c) + y1 (cbbox c)) / 2 / scale_factor"

subsection \<open>check_controls_aligned\<close>

text \<open>
  Called with its defaults only: \<open>min_aligned = 3\<close>, \<open>tolerance_pt = 5\<close>. A position is
  clustered by \<open>round(c / 5) * 5\<close>; the largest count of a clustered x that is not left of
  the left margin threshold, and the largest count of a clustered y, are compared with 3.
\<close>

definition cluster_x :: "real \<Rightarrow> control \<Rightarrow> int" where
  "cluster_x scale_factor c = py_round (ctrl_center_x c scale_factor / 5) * 5"

definition cluster_y :: "real \<Rightarrow> control \<Rightarrow> int" where
  "cluster_y scale_factor c = py_round (ctrl_center_y c scale_factor / 5) * 5"

definition check_controls_aligned :: "control list \<Rightarrow> real \<Rightarrow> real \<Rightarrow> py_error + bool" where
  "check_controls_aligned controls scale_factor page_width =
     (if length controls < 3 then Inr False
      else if scale_factor = 0 then Inl ZeroDivisionError
      else
        (let left_margin_threshold = page_width * (5 / 100);
             x_positions = map (cluster_x scale_factor) controls;
             x_counts = counter x_positions;
             valid_x_alignments =
               filter (\<lambda>xc. real_of_int (fst xc) \<ge> left_margin_threshold) x_counts;
             max_x_aligned = fold max (map snd valid_x_alignments) 0;
             y_positions = map (cluster_y scale_factor) controls;
             y_counts = counter y_positions;
             max_y_aligned = fold max (map snd y_counts) 0
         in Inr (max_x_aligned \<ge> 3 \<or> max_y_aligned \<ge> 3)))"

subsection \<open>has_label_to_left\<close>

definition has_label_to_left :: "control \<Rightarrow> block list \<Rightarrow> real \<Rightarrow> py_error + bool" where
  "has_label_to_left c blks scale_factor =
     (if scale_factor = 0 then Inl ZeroDivisionError
      else
        (let ctrl_x0 = real_of_int (x0 (cbbox c)) / scale_factor;
             ctrl_y_center = ctrl_center_y c scale_factor
         in Inr (list_ex
                  (\<lambda>b. \<not> \<bar>y_center b - ctrl_y_center\<bar> > 10
                        \<and> x1 (bbox b) < ctrl_x0 \<and> ctrl_x0 - x1 (bbox b) \<le> 50)
                  blks)))"

subsection \<open>filter_valid_controls\<close>

text \<open>
  The size floor: at least 10 points in both dimensions.
\<close>

definition size_valid :: "control list \<Rightarrow> real \<Rightarrow> control list" where
  "size_valid raw_controls scale_factor =
     filter (\<lambda>c. real_of_int (x1 (cbbox c) - x0 (cbbox c)) / scale_factor \<ge> 10
                 \<and> real_of_int (y1 (cbbox c) - y0 (cbbox c)) / scale_factor \<ge> 10)
       raw_controls"

text \<open>
  The inner loop over the blocks, in both branches: the centre of the detection lies in the
  bounding box of a block widened by 5 points to the left and right and by 2 points above and
  below.
\<close>

definition is_inside_text :: "control \<Rightarrow> block list \<Rightarrow> real \<Rightarrow> bool" where
  "is_inside_text c blks scale_factor =
     (let ctrl_x = ctrl_center_x c scale_factor; ctrl_y = ctrl_center_y c scale_factor
      in list_ex
           (\<lambda>b. x0 (bbox b) - 5 \<le> ctrl_x \<and> ctrl_x \<le> x1 (bbox b) + 5
                 \<and> y0 (bbox b) - 2 \<le> ctrl_y \<and> ctrl_y \<le> y1 (bbox b) + 2)
           blks)"

text \<open>The strict branch; \<open>has_label_to_left\<close> is called only for a detection in the margin.\<close>

fun strict_filter :: "control list \<Rightarrow> block list \<Rightarrow> real \<Rightarrow> real \<Rightarrow> py_error + control list"
where
  "strict_filter [] blks scale_factor left_margin_threshold = Inr []"
| "strict_filter (c # cs) blks scale_factor left_margin_threshold =
     (if is_inside_text c blks scale_factor
      then strict_filter cs blks scale_factor left_margin_threshold
      else if ctrl_center_x c scale_factor < left_margin_threshold then
        (case has_label_to_left c blks scale_factor of
           Inl e \<Rightarrow> Inl e
         | Inr labelled \<Rightarrow>
             if \<not> labelled then strict_filter cs blks scale_factor left_margin_threshold
             else map_sum id ((#) c)
                    (strict_filter cs blks scale_factor left_margin_threshold))
      else map_sum id ((#) c) (strict_filter cs blks scale_factor left_margin_threshold))"

definition filter_valid_controls ::
  "control list \<Rightarrow> block list \<Rightarrow> real \<Rightarrow> real \<Rightarrow> py_error + control list"
where
  "filter_valid_controls raw_controls blks scale_factor page_width =
     (if raw_controls \<noteq> [] \<and> scale_factor = 0 then Inl ZeroDivisionError
      else
        (let left_margin_threshold = page_width * (5 / 100);
             sv = size_valid raw_controls scale_factor
         in case check_controls_aligned sv scale_factor page_width of
              Inl e \<Rightarrow> Inl e
            | Inr aligned \<Rightarrow>
                if aligned
                then Inr (filter (\<lambda>c. \<not> is_inside_text c blks scale_factor) sv)
                else strict_filter sv blks scale_factor left_margin_threshold))"

subsection \<open>compute_control_features\<close>

definition compute_control_features :: "control \<Rightarrow> real \<Rightarrow> py_error + control_features" where
  "compute_control_features c scale_factor =
     (let w = x1 (cbbox c) - x0 (cbbox c); h = y1 (cbbox c) - y0 (cbbox c)
      in if scale_factor = 0 then Inl ZeroDivisionError
         else Inr \<lparr>width_px = w, height_px = h,
                   aspect_ratio =
                     (if h > 0 then round_to 2 (real_of_int w / real_of_int h) else 1),
                   width_pt = round_to 1 (real_of_int w / scale_factor),
                   height_pt = round_to 1 (real_of_int h / scale_factor)\<rparr>)"

subsection \<open>map_controls_to_blocks\<close>

text \<open>
  The loop over the blocks for one detection. The state is the best block so far with its
  distance; \<open>None\<close> stands for \<open>best_block = None\<close>, \<open>best_distance = inf\<close>.
\<close>

fun best_label :: "real \<Rightarrow> real \<Rightarrow> block list \<Rightarrow> (block \<times> real) option \<Rightarrow> (block \<times> real) option"
where
  "best_label pdf_x0 pdf_y0 [] best = best"
| "best_label pdf_x0 pdf_y0 (b # bs) best =
     best_label pdf_x0 pdf_y0 bs
       (if x1 (bbox b) < pdf_x0 + 20 \<and> \<bar>y0 (bbox b) - pdf_y0\<bar> < 15 then
          (let dist = pdf_x0 - x1 (bbox b)
           in if 0 < dist \<and> (case best of None \<Rightarrow> True | Some bd \<Rightarrow> dist < snd bd)
              then Some (b, dist) else best)
        else best)"

definition map_control :: "block list \<Rightarrow> real \<Rightarrow> control \<Rightarrow> control" where
  "map_control blks scale_factor c =
     (let pdf_x0 = real_of_int (x0 (cbbox c)) / scale_factor;
          pdf_y0 = real_of_int (y0 (cbbox c)) / scale_factor;
          pdf_x1 = real_of_int (x1 (cbbox c)) / scale_factor;
          pdf_y1 = real_of_int (y1 (cbbox c)) / scale_factor;
          best = best_label pdf_x0 pdf_y0 blks None
      in c\<lparr>pdf_bbox := Some \<lparr>x0 = round_to 2 pdf_x0, y0 = round_to 2 pdf_y0,
                             x1 = round_to 2 pdf_x1, y1 = round_to 2 pdf_y1\<rparr>,
           label_block_id :=
             (case best of None \<Rightarrow> label_block_id c | Some bd \<Rightarrow> Some (block_id (fst bd))),
           label_text :=
             (case best of None \<Rightarrow> label_text c | Some bd \<Rightarrow> Some (block_text (fst bd)))\<rparr>)"

definition map_controls_to_blocks ::
  "control list \<Rightarrow> block list \<Rightarrow> real \<Rightarrow> py_error + control list"
where
  "map_controls_to_blocks controls blks scale_factor =
     (if controls \<noteq> [] \<and> scale_factor = 0 then Inl ZeroDivisionError
      else Inr (map (map_control blks scale_factor) controls))"

subsection \<open>assign_blocks_to_bands\<close>

record band =
  band_y0 :: int
  band_y1 :: int

text \<open>
  The row of one band: the blocks whose vertical centre lies in the band (converted to PDF
  points), sorted by \<open>x0\<close>; a band that holds no block gives no row.
\<close>

definition band_row :: "block list \<Rightarrow> real \<Rightarrow> band \<Rightarrow> row option" where
  "band_row blks scale_factor bnd =
     (let by0 = real_of_int (band_y0 bnd) / scale_factor;
          by1 = real_of_int (band_y1 bnd) / scale_factor;
          band_blocks = filter (\<lambda>b. by0 \<le> y_center b \<and> y_center b \<le> by1) blks
      in if band_blocks \<noteq> [] then
           Some \<lparr>blocks = sort_key (\<lambda>b. x0 (bbox b)) band_blocks,
                 y_min = round_to 2 by0, y_max = round_to 2 by1,
                 source = Some ''visual_band'', row_type = None\<rparr>
         else None)"

definition assign_blocks_to_bands ::
  "block list \<Rightarrow> band list \<Rightarrow> real \<Rightarrow> py_error + row list option"
where
  "assign_blocks_to_bands blks row_bands scale_factor =
     (if row_bands = [] then Inr None
      else if scale_factor = 0 then Inl ZeroDivisionError
      else
        (let rows = List.map_filter (band_row blks scale_factor) row_bands
         in Inr (if rows \<noteq> [] then Some rows else None)))"

section \<open>Page layout (extract_layout.py)\<close>

subsection \<open>compute_stats, classify_rows, detect_columns\<close>

record stats =
  median_font_size :: real
  min_font_size :: real
  max_font_size :: real
  stats_total_blocks :: nat

definition compute_stats :: "block list \<Rightarrow> stats option" where
  "compute_stats blks =
     (if blks = [] then None
      else
        (let font_sizes = map font_size blks
         in Some \<lparr>median_font_size = round_to 2 (sort font_sizes ! (length font_sizes div 2)),
                   min_font_size = round_to 2 (Min (set font_sizes)),
                   max_font_size = round_to 2 (Max (set font_sizes)),
                   stats_total_blocks = length blks\<rparr>))"

text \<open>
  \<open>classify_row\<close> reads the text of the blocks through regular expressions and Unicode
  character classes; it returns a type name for every row and changes nothing else. It is a
  parameter \<open>classify_row\<close> of the functions that call it, taking the row, the page width and
  the median font size.
\<close>

type_synonym row_classifier = "row \<Rightarrow> real \<Rightarrow> real \<Rightarrow> string"

definition classify_rows :: "row_classifier \<Rightarrow> row list \<Rightarrow> real \<Rightarrow> stats option \<Rightarrow> row list" where
  "classify_rows classify_row rows page_width st =
     (let median = (case st of None \<Rightarrow> 10 | Some s \<Rightarrow> median_font_size s)
      in map (\<lambda>r. r\<lparr>row_type := Some (classify_row r page_width median)\<rparr>) rows)"

fun columns_loop :: "real \<Rightarrow> real list \<Rightarrow> real list \<Rightarrow> real list \<Rightarrow> real list" where
  "columns_loop x_tolerance [] current_cluster columns =
     (if current_cluster \<noteq> []
      then columns @ [round_to 2 (sum_list current_cluster / real (length current_cluster))]
      else columns)"
| "columns_loop x_tolerance (x # xs) current_cluster columns =
     (if x - last current_cluster < x_tolerance
      then columns_loop x_tolerance xs (current_cluster @ [x]) columns
      else columns_loop x_tolerance xs [x]
             (columns
              @ [round_to 2 (sum_list current_cluster / real (length current_cluster))]))"

definition detect_columns :: "row list \<Rightarrow> real list" where
  "detect_columns rows =
     (case sort (concat (map (\<lambda>r. map (\<lambda>b. x0 (bbox b)) (blocks r)) rows)) of
        [] \<Rightarrow> []
      | x # xs \<Rightarrow> columns_loop 10 xs [x] [])"

subsection \<open>extract_pdf\<close>

text \<open>
  A page of the document as PyMuPDF presents it: the size of its rectangle and the blocks
  that \<open>extract_page_blocks\<close> returns for it. The document is the list of its pages.
\<close>

record pdf_page =
  rect_width :: real
  rect_height :: real
  extracted_blocks :: "block list"

record page_layout =
  page_number :: int
  width :: real
  height :: real
  page_blocks :: "block list"
  page_rows :: "row list"
  page_columns :: "real list"
  page_stats :: "stats option"

definition extract_page :: "row_classifier \<Rightarrow> pdf_page \<Rightarrow> int \<Rightarrow> page_layout" where
  "extract_page classify_row page page_idx =
     (let page_width = round_to 2 (rect_width page);
          page_height = round_to 2 (rect_height page);
          blks = extracted_blocks page;
          rows = group_into_rows blks 3;
          st = compute_stats blks;
          rows' = classify_rows classify_row rows page_width st
      in \<lparr>page_number = page_idx + 1, width = page_width, height = page_height,
          page_blocks = blks, page_rows = rows', page_columns = detect_columns rows',
          page_stats = st\<rparr>)"

text \<open>
  The \<open>pages\<close> list of the result. With a page number, the only index is \<open>page_num - 1\<close>, and
  an index outside the document is skipped.
\<close>

definition extract_pdf :: "row_classifier \<Rightarrow> pdf_page list \<Rightarrow> int option \<Rightarrow> page_layout list" where
  "extract_pdf classify_row doc page_num =
     (let page_indices = (case page_num of
                            Some n \<Rightarrow> [n - 1]
                          | None \<Rightarrow> map int [0 ..< length doc])
      in map (\<lambda>page_idx. extract_page classify_row (doc ! nat page_idx) page_idx)
           (filter (\<lambda>page_idx. \<not> (page_idx < 0 \<or> page_idx \<ge> int (length doc))) page_indices))"

section \<open>The detector's result (detect_controls.py)\<close>

subsection \<open>detect_row_bands\<close>

text \<open>
  The loop over the pixel rows of the image. \<open>is_content\<close> is the thresholded projection, one
  truth value for each pixel row; the state is \<open>(bands, in_content, start_y)\<close>.
\<close>

fun bands_loop ::
  "int \<Rightarrow> bool list \<Rightarrow> int \<Rightarrow> band list \<times> bool \<times> int \<Rightarrow> band list \<times> bool \<times> int"
where
  "bands_loop min_row_height [] y st = st"
| "bands_loop min_row_height (content_here # rest) y (bands, in_content, start_y) =
     bands_loop min_row_height rest (y + 1)
       (if content_here \<and> \<not> in_content then (bands, True, y)
        else if \<not> content_here \<and> in_content then
          ((if y - start_y \<ge> min_row_height
            then bands @ [\<lparr>band_y0 = start_y, band_y1 = y\<rparr>] else bands),
           False, start_y)
        else (bands, in_content, start_y))"

fun merge_bands :: "int \<Rightarrow> band list \<Rightarrow> band list \<Rightarrow> band list" where
  "merge_bands min_gap merged [] = merged"
| "merge_bands min_gap merged (bnd # rest) =
     merge_bands min_gap
       (if band_y0 bnd - band_y1 (last merged) < min_gap
        then butlast merged @ [(last merged)\<lparr>band_y1 := band_y1 bnd\<rparr>]
        else merged @ [bnd])
       rest"

definition detect_row_bands :: "bool list \<Rightarrow> int \<Rightarrow> int \<Rightarrow> band list" where
  "detect_row_bands is_content min_gap min_row_height =
     (let (bands, in_content, start_y) = bands_loop min_row_height is_content 0 ([], False, 0);
          bands' = (if in_content \<and> int (length is_content) - start_y \<ge> min_row_height
                    then bands @ [\<lparr>band_y0 = start_y, band_y1 = int (length is_content)\<rparr>]
                    else bands)
      in if length bands' > 1 then merge_bands min_gap [hd bands'] (tl bands') else bands')"

subsection \<open>detect_all_controls\<close>

text \<open>
  What OpenCV reports for the rendered page: the size of the image, the contours found on the
  binary image and on the dilated edges, the circles, the thresholded projection, and the
  line segments. The debug drawing and the visual sections are left out.
\<close>

record image_obs =
  image_width :: int
  image_height :: int
  binary_contours :: "contour_obs list"
  hough_circles :: "circle_obs list"
  edge_contours :: "contour_obs list"
  content_rows :: "bool list"
  horizontal_lines :: "hline list"
  vertical_lines :: "vline list"

record controls_data =
  scale_factor :: real
  checkboxes :: "control list"
  radio_buttons :: "control list"
  input_boxes :: "control list"
  row_bands :: "band list"
  cell_grid :: "cell_grid option"

definition detect_all_controls :: "image_obs \<Rightarrow> controls_data" where
  "detect_all_controls img =
     (let sf = real_of_int (image_height img) / 842
      in \<lparr>scale_factor = round_to 2 sf,
          checkboxes = detect_checkboxes (int_trunc (8 * sf)) (int_trunc (30 * sf))
                         (binary_contours img),
          radio_buttons = detect_radio_buttons (image_width img) (image_height img)
                            (hough_circles img),
          input_boxes = detect_input_boxes (int_trunc (50 * sf)) (int_trunc (12 * sf))
                          (int_trunc (40 * sf)) (edge_contours img),
          row_bands = detect_row_bands (content_rows img) (int_trunc (3 * sf))
                        (int_trunc (6 * sf)),
          cell_grid = build_cell_grid_from_lines (horizontal_lines img) (vertical_lines img)
                        (int_trunc (10 * sf))\<rparr>)"

section \<open>The combined extractor (combined_extractor.py)\<close>

text \<open>
  The record of a page. It keeps the keys that the properties below speak about; the keys
  \<open>source\<close>, \<open>row_groups\<close>, \<open>table_borders\<close>, \<open>visual_sections\<close> and the row-type histogram
  are computed from the same data by functions that cannot fail and are left out. On a text
  page \<open>rows\<close> is null and the key \<open>row_source\<close> is absent.
\<close>

record combined_record =
  rec_page_number :: int
  rec_page_type :: page_kind
  rec_classification :: classification
  rec_dimensions :: "real \<times> real"
  text_blocks :: "block list"
  text_rows :: "row list option"
  row_source :: "string option"
  text_columns :: "real list"
  text_stats :: "stats option"
  control_items :: "control list"
  controls_scale_factor :: real
  total_blocks :: nat
  total_rows :: nat
  total_controls :: nat

datatype extraction = ErrorRecord string | PageRecord combined_record

text \<open>The loop that adds \<open>features\<close> to every valid control.\<close>

fun add_features :: "control list \<Rightarrow> real \<Rightarrow> py_error + control list" where
  "add_features [] sf = Inr []"
| "add_features (cb # cbs) sf =
     (case compute_control_features cb sf of
        Inl e \<Rightarrow> Inl e
      | Inr f \<Rightarrow> map_sum id ((#) (cb\<lparr>features := Some f\<rparr>)) (add_features cbs sf))"

definition form_record ::
  "row_classifier \<Rightarrow> int \<Rightarrow> page_layout \<Rightarrow> controls_data \<Rightarrow> control list \<Rightarrow> classification
     \<Rightarrow> py_error + extraction"
where
  "form_record classify_row page_num page_layout cd valid_controls cls =
     (let blks = page_blocks page_layout; sf = scale_factor cd
      in case assign_blocks_to_bands blks (row_bands cd) sf of
           Inl e \<Rightarrow> Inl e
         | Inr visual_rows \<Rightarrow>
             (let use_visual = (case visual_rows of None \<Rightarrow> False | Some vr \<Rightarrow> length vr \<ge> 3);
                  rows = (if use_visual
                          then classify_rows classify_row (the visual_rows) (width page_layout)
                                 (page_stats page_layout)
                          else page_rows page_layout);
                  src = (if use_visual then ''visual_bands'' else ''text_y_proximity'')
              in case add_features valid_controls sf of
                   Inl e \<Rightarrow> Inl e
                 | Inr all_controls \<Rightarrow>
                     (case map_controls_to_blocks all_controls blks sf of
                        Inl e \<Rightarrow> Inl e
                      | Inr mapped_controls \<Rightarrow>
                          Inr (PageRecord
                            \<lparr>rec_page_number = page_num, rec_page_type = page_type cls,
                             rec_classification = cls,
                             rec_dimensions = (width page_layout, height page_layout),
                             text_blocks = blks, text_rows = Some rows,
                             row_source = Some src,
                             text_columns = page_columns page_layout,
                             text_stats = page_stats page_layout,
                             control_items = mapped_controls,
                             controls_scale_factor = sf,
                             total_blocks = length blks, total_rows = length rows,
                             total_controls = length mapped_controls\<rparr>))))"

definition text_record ::
  "int \<Rightarrow> page_layout \<Rightarrow> controls_data \<Rightarrow> classification \<Rightarrow> extraction"
where
  "text_record page_num page_layout cd cls =
     PageRecord
       \<lparr>rec_page_number = page_num, rec_page_type = page_type cls,
        rec_classification = cls,
        rec_dimensions = (width page_layout, height page_layout),
        text_blocks = page_blocks page_layout, text_rows = None, row_source = None,
        text_columns = page_columns page_layout, text_stats = page_stats page_layout,
        control_items = [], controls_scale_factor = scale_factor cd,
        total_blocks = length (page_blocks page_layout), total_rows = 0,
        total_controls = 0\<rparr>"

text \<open>
  Steps 4 to 6 of \<open>extract_combined\<close>: what is done with the layout of the page and the
  detector's result.
\<close>

definition assemble ::
  "row_classifier \<Rightarrow> int \<Rightarrow> page_layout \<Rightarrow> controls_data \<Rightarrow> py_error + extraction"
where
  "assemble classify_row page_num page_layout cd =
     (let blks = page_blocks page_layout;
          raw_controls = checkboxes cd
      in case filter_valid_controls raw_controls blks (scale_factor cd)
                (width page_layout) of
           Inl e \<Rightarrow> Inl e
         | Inr valid_controls \<Rightarrow>
             (case classify_page_type blks (page_columns page_layout) (width page_layout)
                     (height page_layout) (length valid_controls) of
                Inl e \<Rightarrow> Inl e
              | Inr cls \<Rightarrow>
                  if page_type cls = Form
                  then form_record classify_row page_num page_layout cd valid_controls cls
                  else Inr (text_record page_num page_layout cd cls)))"

text \<open>
  \<open>extract_combined\<close>. The page is rendered and \<open>detect_all_controls\<close> runs on the image only
  after the layout has been found to hold a page; \<open>img\<close> is what OpenCV reports for that
  image.
\<close>

definition extract_combined ::
  "row_classifier \<Rightarrow> pdf_page list \<Rightarrow> int \<Rightarrow> image_obs \<Rightarrow> py_error + extraction"
where
  "extract_combined classify_row doc page_num img =
     (case extract_pdf classify_row doc (Some page_num) of
        [] \<Rightarrow> Inr (ErrorRecord ''No pages extracted'')
      | page_layout # _ \<Rightarrow> assemble classify_row page_num page_layout (detect_all_controls img))"

section \<open>Properties stated about the code\<close>

text \<open>
  No detection of the list overlaps an earlier one beyond the threshold, in the sense of the
  test inside \<open>remove_overlapping\<close>.
\<close>

definition pairwise_apart :: "real \<Rightarrow> control list \<Rightarrow> bool" where
  "pairwise_apart th xs =
     (\<forall>i j. i < j \<and> j < length xs \<longrightarrow> \<not> overlaps th (xs ! j) (xs ! i))"

text \<open>
  The detections kept from a list sorted by confidence, as the positions \<open>is\<close> of the list
  in increasing order: a position is kept exactly when the IoU of its detection with every
  detection kept before it does not exceed the threshold.
\<close>

definition greedy_kept :: "real \<Rightarrow> control list \<Rightarrow> nat list \<Rightarrow> bool" where
  "greedy_kept th s is =
     (sorted_wrt (<) is \<and> (\<forall>i \<in> set is. i < length s)
      \<and> (\<forall>i < length s.
            i \<in> set is \<longleftrightarrow>
              (\<forall>j \<in> set is. j < i \<longrightarrow>
                 (\<forall>v. box_iou (cbbox (s ! i)) (cbbox (s ! j)) = Some v \<longrightarrow> v \<le> th))))"

text \<open>
  The circles of a list do not cross: the centres of any two are at least the sum of their
  radii apart. The circle detector is run with a minimum distance between centres of
  \<open>int(20 * scale_factor)\<close> and a maximum radius of \<open>int(10 * scale_factor)\<close>.
\<close>

definition circles_apart :: "circle_obs list \<Rightarrow> bool" where
  "circles_apart cs =
     (\<forall>i j. i < j \<and> j < length cs \<longrightarrow>
        (circ_r (cs ! i) + circ_r (cs ! j))\<^sup>2
          \<le> (circ_x (cs ! i) - circ_x (cs ! j))\<^sup>2 + (circ_y (cs ! i) - circ_y (cs ! j))\<^sup>2)"

definition span_shape :: "span \<Rightarrow> nat \<times> nat \<times> nat \<times> nat" where
  "span_shape s = (span_row s, span_col s, rowspan s, colspan s)"

section \<open>Example inputs\<close>

definition mk_block :: "string \<Rightarrow> real \<Rightarrow> real \<Rightarrow> real \<Rightarrow> real \<Rightarrow> nat \<Rightarrow> block" where
  "mk_block t a b c d i =
     \<lparr>block_text = t, bbox = \<lparr>x0 = a, y0 = b, x1 = c, y1 = d\<rparr>, font_size = 10,
      font_name = ''Helvetica'', is_bold = False, block_id = i\<rparr>"

definition mk_checkbox :: "int \<Rightarrow> int \<Rightarrow> int \<Rightarrow> int \<Rightarrow> real \<Rightarrow> control" where
  "mk_checkbox a b c d conf =
     \<lparr>ctype = Checkbox, cbbox = \<lparr>x0 = a, y0 = b, x1 = c, y1 = d\<rparr>, confidence = conf,
      checked = Some False, center = None, radius = None, selected = None, features = None,
      pdf_bbox = None, label_block_id = None, label_text = None\<rparr>"

text \<open>A row whose two blocks both start in the first of two grid columns.\<close>

definition ex_shared_row :: row where
  "ex_shared_row =
     \<lparr>blocks = [mk_block ''Name'' 10 0 40 12 0, mk_block ''Surname'' 20 0 60 12 1],
      y_min = 0, y_max = 12, source = None, row_type = None\<rparr>"

definition ex_two_columns :: "(real \<times> real) list" where
  "ex_two_columns = [(0, 50), (50, 100)]"

text \<open>
  Four checkbox detections: the second overlaps the first almost entirely and has the higher
  confidence, the third is far away, the fourth touches a corner of the first two.
\<close>

definition ex_detections :: "control list" where
  "ex_detections =
     [mk_checkbox 0 0 10 10 (7 / 10), mk_checkbox 1 1 11 11 (9 / 10),
      mk_checkbox 100 100 110 110 (7 / 10), mk_checkbox 8 8 18 18 (5 / 10)]"

text \<open>
  Two checkbox contours of 13 by 13 pixels, the second 7 pixels to the right of the first:
  their boxes share 78 of 260 pixels, an IoU of exactly 0.3.
\<close>

definition ex_threshold_contours :: "contour_obs list" where
  "ex_threshold_contours =
     [\<lparr>rect_x = 100, rect_y = 100, rect_w = 13, rect_h = 13, approx_len = 4, roi_size = 169,
       center_size = 49, center_mean = 200, edge_mean = 60, contour_area = 144\<rparr>,
      \<lparr>rect_x = 107, rect_y = 100, rect_w = 13, rect_h = 13, approx_len = 4, roi_size = 169,
       center_size = 49, center_mean = 200, edge_mean = 60, contour_area = 144\<rparr>]"

text \<open>
  Two circles of radius 10, 200 pixels apart, both with a hollow centre; half of the ring
  of the first is filled and all of the ring of the second. A disc of radius 10 has 317
  pixels and the inner disc of radius 7 has 149.
\<close>

definition ex_circles :: "circle_obs list" where
  "ex_circles =
     [\<lparr>circ_x = 100, circ_y = 100, circ_r = 10, perimeter_pixels = 84, perimeter_area = 168,
       center_pixels = 0, center_area = 149\<rparr>,
      \<lparr>circ_x = 300, circ_y = 100, circ_r = 10, perimeter_pixels = 168, perimeter_area = 168,
       center_pixels = 0, center_area = 149\<rparr>]"

text \<open>
  Two such circles side by side on a diagonal: the circles do not cross, their boxes share a
  corner of 4 by 4 pixels.
\<close>

definition ex_near_circles :: "circle_obs list" where
  "ex_near_circles =
     [\<lparr>circ_x = 100, circ_y = 100, circ_r = 10, perimeter_pixels = 168, perimeter_area = 168,
       center_pixels = 0, center_area = 149\<rparr>,
      \<lparr>circ_x = 116, circ_y = 116, circ_r = 10, perimeter_pixels = 168, perimeter_area = 168,
       center_pixels = 0, center_area = 149\<rparr>]"

text \<open>
  Three horizontal and three vertical lines that bound a grid of two rows and two columns, and
  two text blocks: one in the cell of row 0, column 1, one in the cell of row 1, column 0.
\<close>

definition ex_h_lines :: "hline list" where
  "ex_h_lines =
     [\<lparr>line_y = 0, line_x0 = 0, line_x1 = 200\<rparr>, \<lparr>line_y = 100, line_x0 = 0, line_x1 = 200\<rparr>,
      \<lparr>line_y = 200, line_x0 = 0, line_x1 = 200\<rparr>]"

definition ex_v_lines :: "vline list" where
  "ex_v_lines =
     [\<lparr>line_x = 0, line_y0 = 0, line_y1 = 200\<rparr>, \<lparr>line_x = 100, line_y0 = 0, line_y1 = 200\<rparr>,
      \<lparr>line_x = 200, line_y0 = 0, line_y1 = 200\<rparr>]"

definition ex_diagonal_blocks :: "block list" where
  "ex_diagonal_blocks = [mk_block ''A'' 120 20 180 40 0, mk_block ''B'' 20 120 80 140 1]"

definition ex_diagonal_grid :: "cell_grid option" where
  "ex_diagonal_grid =
     assign_text_to_cells (build_cell_grid_from_lines ex_h_lines ex_v_lines 10)
       ex_diagonal_blocks 1"

section \<open>The page rules as the specification lists them\<close>

text \<open>
  The decision order of the page classifier, first match wins, over the signals it declares:
  whether the page has no blocks, the control count, the estimated column count, the text
  density, the average block-width ratio and the x-alignment score.
\<close>

definition page_rules :: "bool \<Rightarrow> nat \<Rightarrow> nat \<Rightarrow> real \<Rightarrow> real \<Rightarrow> real \<Rightarrow> page_kind \<times> string" where
  "page_rules no_blocks n_controls n_columns density width_ratio alignment =
     (if no_blocks then (Text, ''no blocks'')
      else if n_controls \<ge> 2 then (Form, ''has_controls'')
      else if density > 5 \<and> n_controls = 0 then (Text, ''high_density_no_controls'')
      else if n_columns \<ge> 2 \<and> n_controls = 0 then (Text, ''multi_column'')
      else if alignment > 4 / 10 \<and> width_ratio < 6 / 10 \<and> density < 5
        then (Form, ''grid_alignment'')
      else if width_ratio > 7 / 10 \<and> density > 5 / 10 then (Text, ''prose_layout'')
      else (Form, ''default''))"

definition verdict :: "classification \<Rightarrow> page_kind \<times> string" where
  "verdict c = (page_type c, reason c)"

text \<open>
  Four wide lines of text, all starting at x = 50, on a page 600 points wide and 100 points
  high.
\<close>

definition ex_strip_blocks :: "block list" where
  "ex_strip_blocks =
     [mk_block ''line one'' 50 10 550 20 0, mk_block ''line two'' 50 30 550 40 1,
      mk_block ''line three'' 50 50 550 60 2, mk_block ''line four'' 50 70 550 80 3]"

section \<open>Grid alignment and labels as the specification describes them\<close>

text \<open>
  At least 3 of the controls share a clustered x-coordinate that is not in the left margin
  band (the first 5 percent of the page width), or at least 3 share a clustered y-coordinate.
\<close>

definition grid_aligned :: "control list \<Rightarrow> real \<Rightarrow> real \<Rightarrow> bool" where
  "grid_aligned cs sf page_width =
     ((\<exists>v. real_of_int v \<ge> page_width * (5 / 100)
            \<and> 3 \<le> length (filter (\<lambda>c. cluster_x sf c = v) cs))
      \<or> (\<exists>v. 3 \<le> length (filter (\<lambda>c. cluster_y sf c = v) cs)))"

text \<open>
  A block is a label candidate of a control when its right edge is strictly left of the
  control's left edge (in PDF points) and its top is within 15 points of the control's top;
  the gap is the horizontal distance between the two edges.
\<close>

definition label_gap :: "control \<Rightarrow> real \<Rightarrow> block \<Rightarrow> real" where
  "label_gap c sf b = real_of_int (x0 (cbbox c)) / sf - x1 (bbox b)"

definition label_candidate :: "control \<Rightarrow> real \<Rightarrow> block \<Rightarrow> bool" where
  "label_candidate c sf b =
     (0 < label_gap c sf b \<and> \<bar>y0 (bbox b) - real_of_int (y0 (cbbox c)) / sf\<bar> < 15)"

text \<open>
  Five checkbox detections on an image rendered at twice the PDF scale, all centred at
  x = 200 points, 50 points apart vertically; the first three have a label 14 points to their
  left, the last two have no text in their row. The page is 600 points wide.
\<close>

definition ex_grid_controls :: "control list" where
  "ex_grid_controls =
     [mk_checkbox 388 188 412 212 (7 / 10), mk_checkbox 388 288 412 312 (7 / 10),
      mk_checkbox 388 388 412 412 (7 / 10), mk_checkbox 388 488 412 512 (7 / 10),
      mk_checkbox 388 588 412 612 (7 / 10)]"

definition ex_grid_labels :: "block list" where
  "ex_grid_labels =
     [mk_block ''Option A'' 100 94 180 106 0, mk_block ''Option B'' 100 144 180 156 1,
      mk_block ''Option C'' 100 194 180 206 2]"

text \<open>
  Three checkbox detections, 10 points wide, in one column; the first stands immediately to
  the right of its label, whose bounding box ends where the checkbox begins (x = 196 points).
\<close>

definition ex_adjacent_controls :: "control list" where
  "ex_adjacent_controls =
     [mk_checkbox 392 188 412 212 (7 / 10), mk_checkbox 392 288 412 312 (7 / 10),
      mk_checkbox 392 388 412 412 (7 / 10)]"

definition ex_adjacent_labels :: "block list" where
  "ex_adjacent_labels = [mk_block ''I agree'' 100 94 196 106 0]"

text \<open>
  A checkbox at the right of the page (its left edge at x = 500 points) and, in its row, a
  near block that ends 10 points before it, a farther block that ends 60 points before it, and
  a block at the left margin that ends 450 points before it.
\<close>

definition ex_far_control :: control where
  "ex_far_control = mk_checkbox 1000 200 1024 224 (7 / 10)"

definition ex_row_labels :: "block list" where
  "ex_row_labels =
     [mk_block ''1.'' 30 100 50 112 0, mk_block ''Yes'' 400 100 440 112 1,
      mk_block ''or'' 470 100 490 112 2]"

definition ex_margin_label :: "block list" where
  "ex_margin_label = [mk_block ''1.'' 30 100 50 112 0]"

section \<open>Row sources and records as the specification describes them\<close>

text \<open>
  A block belongs to a visual band when its vertical centre lies in the band, taken in PDF
  points. The filled bands are the bands that hold at least one block.
\<close>

definition in_band :: "real \<Rightarrow> band \<Rightarrow> block \<Rightarrow> bool" where
  "in_band sf bnd b =
     (real_of_int (band_y0 bnd) / sf \<le> y_center b \<and> y_center b \<le> real_of_int (band_y1 bnd) / sf)"

definition filled_bands :: "block list \<Rightarrow> band list \<Rightarrow> real \<Rightarrow> band list" where
  "filled_bands blks bands sf = filter (\<lambda>bnd. list_ex (in_band sf bnd) blks) bands"

text \<open>The page record of a result, when the result is one.\<close>

definition the_record :: "py_error + extraction \<Rightarrow> combined_record option" where
  "the_record res = (case res of Inr (PageRecord r) \<Rightarrow> Some r | _ \<Rightarrow> None)"

text \<open>
  A page of 595 by 842 points rendered at 200 dpi, 1653 by 2339 pixels. The image shows three
  square boxes of 33 pixels in a column, a circle of radius 16 and a wide field; the
  projection has three bands of content, at the height of the three boxes. A disc of radius
  16 has 797 pixels and the inner disc of radius 8 has 197.
\<close>

definition mk_contour :: "int \<Rightarrow> int \<Rightarrow> int \<Rightarrow> int \<Rightarrow> contour_obs" where
  "mk_contour x y w h =
     (let border_width = max 2 (min w h div 4)
      in \<lparr>rect_x = x, rect_y = y, rect_w = w, rect_h = h, approx_len = 4,
          roi_size = nat (w * h),
          center_size = nat ((w - 2 * border_width) * (h - 2 * border_width)),
          center_mean = 250, edge_mean = 40, contour_area = real_of_int (w * h)\<rparr>)"

definition ex_form_boxes :: "contour_obs list" where
  "ex_form_boxes =
     [mk_contour 1111 278 33 33, mk_contour 1111 556 33 33, mk_contour 1111 833 33 33]"

definition ex_form_circles :: "circle_obs list" where
  "ex_form_circles =
     [\<lparr>circ_x = 700, circ_y = 573, circ_r = 16, perimeter_pixels = 600,
       perimeter_area = 600, center_pixels = 0, center_area = 197\<rparr>]"

definition ex_form_fields :: "contour_obs list" where
  "ex_form_fields = [mk_contour 1200 830 400 40]"

definition ex_form_projection :: "bool list" where
  "ex_form_projection =
     replicate 270 False @ replicate 50 True @ replicate 228 False @ replicate 50 True
     @ replicate 227 False @ replicate 50 True @ replicate 1464 False"

definition ex_form_image :: image_obs where
  "ex_form_image =
     \<lparr>image_width = 1653, image_height = 2339, binary_contours = ex_form_boxes,
      hough_circles = ex_form_circles, edge_contours = ex_form_fields,
      content_rows = ex_form_projection, horizontal_lines = [], vertical_lines = []\<rparr>"

text \<open>The rendering of a page on which nothing is drawn.\<close>

definition ex_blank_image :: image_obs where
  "ex_blank_image =
     \<lparr>image_width = 1653, image_height = 2339, binary_contours = [], hough_circles = [],
      edge_contours = [], content_rows = replicate 2339 False, horizontal_lines = [],
      vertical_lines = []\<rparr>"

text \<open>What the detector returns for the image of the form.\<close>

definition ex_form_controls :: controls_data where
  "ex_form_controls =
     \<lparr>scale_factor = 278 / 100,
      checkboxes = [mk_checkbox 1111 278 1144 311 (7 / 10), mk_checkbox 1111 556 1144 589 (7 / 10),
                    mk_checkbox 1111 833 1144 866 (7 / 10)],
      radio_buttons =
        [\<lparr>ctype = Radio, cbbox = \<lparr>x0 = 684, y0 = 557, x1 = 716, y1 = 589\<rparr>, confidence = 1,
          checked = None, center = Some (700, 573), radius = Some 16, selected = Some False,
          features = None, pdf_bbox = None, label_block_id = None, label_text = None\<rparr>],
      input_boxes =
        [\<lparr>ctype = Input, cbbox = \<lparr>x0 = 1200, y0 = 830, x1 = 1600, y1 = 870\<rparr>, confidence = 1,
          checked = None, center = None, radius = None, selected = None,
          features = None, pdf_bbox = None, label_block_id = None, label_text = None\<rparr>],
      row_bands = [\<lparr>band_y0 = 270, band_y1 = 320\<rparr>, \<lparr>band_y0 = 548, band_y1 = 598\<rparr>,
                   \<lparr>band_y0 = 825, band_y1 = 875\<rparr>],
      cell_grid = None\<rparr>"

text \<open>
  Three documents of one page each: a form with a short label to the left of each box, the
  same form with the third label missing, and a page without text. Every row of the first
  two is a single short plain block, which \<open>classify_row\<close> calls a label.
\<close>

definition label_rows :: row_classifier where
  "label_rows r pw median = ''label''"

definition ex_form_doc :: "pdf_page list" where
  "ex_form_doc =
     [\<lparr>rect_width = 595, rect_height = 842,
       extracted_blocks = [mk_block ''Name'' 300 100 380 112 0,
                           mk_block ''Email'' 300 200 380 212 1,
                           mk_block ''Phone'' 300 300 380 312 2]\<rparr>]"

definition ex_sparse_doc :: "pdf_page list" where
  "ex_sparse_doc =
     [\<lparr>rect_width = 595, rect_height = 842,
       extracted_blocks = [mk_block ''Name'' 300 100 380 112 0,
                           mk_block ''Email'' 300 200 380 212 1]\<rparr>]"

definition ex_blank_doc :: "pdf_page list" where
  "ex_blank_doc = [\<lparr>rect_width = 595, rect_height = 842, extracted_blocks = []\<rparr>]"

section \<open>Proofs\<close>

subsection \<open>Grid mapping\<close>

lemma scan_fst_Some: "fst (scan_columns b cols i (Some v, e)) = Some v"
  by (induction cols arbitrary: i e) auto

lemma scan_fst_None:
  "fst (scan_columns b cols i (None, e)) = Some k \<longleftrightarrow>
     (\<exists>n. k = i + n \<and> n < length cols \<and> overlaps_column b (cols ! n)
          \<and> (\<forall>j < n. \<not> overlaps_column b (cols ! j)))"
proof (induction cols arbitrary: i e)
  case Nil
  then show ?case by simp
next
  case (Cons c cols)
  show ?case
  proof (cases "overlaps_column b c")
    case True
    have "(\<exists>n. k = i + n \<and> n < length (c # cols) \<and> overlaps_column b ((c # cols) ! n)
            \<and> (\<forall>j < n. \<not> overlaps_column b ((c # cols) ! j))) \<longleftrightarrow> k = i"
    proof
      assume "\<exists>n. k = i + n \<and> n < length (c # cols) \<and> overlaps_column b ((c # cols) ! n)
            \<and> (\<forall>j < n. \<not> overlaps_column b ((c # cols) ! j))"
      then obtain n where n: "k = i + n" "\<forall>j < n. \<not> overlaps_column b ((c # cols) ! j)" by blast
      have "n = 0" using n(2) True by (cases n) auto
      with n show "k = i" by simp
    next
      assume "k = i"
      with True show "\<exists>n. k = i + n \<and> n < length (c # cols) \<and> overlaps_column b ((c # cols) ! n)
            \<and> (\<forall>j < n. \<not> overlaps_column b ((c # cols) ! j))"
        by (intro exI [of _ 0]) simp
    qed
    then show ?thesis using True by (auto simp: scan_fst_Some)
  next
    case False
    have "fst (scan_columns b (c # cols) i (None, e)) = Some k \<longleftrightarrow>
          (\<exists>n. k = Suc i + n \<and> n < length cols \<and> overlaps_column b (cols ! n)
            \<and> (\<forall>j < n. \<not> overlaps_column b (cols ! j)))"
      using False Cons.IH [of "Suc i" e] by simp
    also have "\<dots> \<longleftrightarrow> (\<exists>n. k = i + n \<and> n < length (c # cols) \<and> overlaps_column b ((c # cols) ! n)
            \<and> (\<forall>j < n. \<not> overlaps_column b ((c # cols) ! j)))" (is "?L \<longleftrightarrow> ?R")
    proof
      assume ?L
      then obtain n where n: "k = Suc i + n" "n < length cols" "overlaps_column b (cols ! n)"
        "\<forall>j < n. \<not> overlaps_column b (cols ! j)" by blast
      have "\<forall>j < Suc n. \<not> overlaps_column b ((c # cols) ! j)"
        using n(4) False by (auto simp: nth_Cons split: nat.splits)
      with n show ?R by (intro exI [of _ "Suc n"]) auto
    next
      assume ?R
      then obtain n where n: "k = i + n" "n < length (c # cols)" "overlaps_column b ((c # cols) ! n)"
        "\<forall>j < n. \<not> overlaps_column b ((c # cols) ! j)" by blast
      from n(3) False obtain m where m: "n = Suc m" by (cases n) auto
      have "\<forall>j < m. \<not> overlaps_column b (cols ! j)"
        using n(4) m by (metis Suc_less_eq nth_Cons_Suc)
      with n m show ?L by (intro exI [of _ m]) auto
    qed
    finally show ?thesis .
  qed
qed

lemma start_col_iff:
  "fst (scan_columns b cols 0 (None, None)) = Some k \<longleftrightarrow> is_first_overlap b cols k"
  by (simp add: scan_fst_None is_first_overlap_def)

lemma length_place_blocks: "length (place_blocks bs cols slots) = length slots"
  by (induction bs arbitrary: slots) (auto split: option.splits)

lemma place_blocks_nth:
  "i < length slots \<Longrightarrow>
   place_blocks bs cols slots ! i =
     (case filter (\<lambda>b. is_first_overlap b cols i) bs of [] \<Rightarrow> slots ! i | fs \<Rightarrow> Some (last fs))"
proof (induction bs arbitrary: slots)
  case Nil
  then show ?case by simp
next
  case (Cons b bs)
  show ?case
  proof (cases "fst (scan_columns b cols 0 (None, None))")
    case None
    then have "\<not> is_first_overlap b cols i" using start_col_iff [of b cols i] by simp
    then show ?thesis using None Cons by simp
  next
    case (Some s)
    then have s: "is_first_overlap b cols i \<longleftrightarrow> i = s" using start_col_iff [of b cols i] by auto
    show ?thesis
    proof (cases "i = s")
      case True
      then show ?thesis using Some s Cons.prems Cons.IH [of "slots[s := Some b]"]
        by (auto split: list.splits)
    next
      case False
      then show ?thesis using Some s Cons.prems Cons.IH [of "slots[s := Some b]"]
        by (auto split: list.splits)
    qed
  qed
qed

lemma count_blocks_update: "count_blocks (slots[s := Some b]) \<le> Suc (count_blocks slots)"
proof (induction slots arbitrary: s)
  case Nil
  then show ?case by (simp add: count_blocks_def)
next
  case (Cons c slots)
  then show ?case by (cases s) (auto simp: count_blocks_def le_SucI)
qed

lemma count_place_blocks: "count_blocks (place_blocks bs cols slots) \<le> count_blocks slots + length bs"
proof (induction bs arbitrary: slots)
  case Nil
  then show ?case by simp
next
  case (Cons b bs)
  show ?case
  proof (cases "fst (scan_columns b cols 0 (None, None))")
    case None
    then show ?thesis using Cons.IH [of slots] by simp
  next
    case (Some s)
    then show ?thesis
      using Cons.IH [of "slots[s := Some b]"] count_blocks_update [of slots s b] by simp
  qed
qed

lemma shared_row_example:
  "count_blocks (map_row_to_grid ex_shared_row ex_two_columns) < length (blocks ex_shared_row)"
  by code_simp

text \<open>
  Claim C10. When a row is mapped onto a grid, the result has one cell per grid column and each
  cell holds at most one block. A block is stored only at the first column it overlaps: cell
  \<open>i\<close> holds the last block of the row, in block order, whose first overlapping column is
  \<open>i\<close>, and is empty when the row has no such block. A later block with the same first column
  therefore replaces the earlier one, the mapped row never holds more blocks than the row, and
  it can hold strictly fewer.
\<close>

theorem map_row_to_grid_first_column:
  "length (map_row_to_grid r columns) = length columns
   \<and> (\<forall>i < length columns.
         map_row_to_grid r columns ! i =
           (case filter (\<lambda>b. is_first_overlap b columns i) (blocks r) of
              [] \<Rightarrow> None | fs \<Rightarrow> Some (last fs)))
   \<and> count_blocks (map_row_to_grid r columns) \<le> length (blocks r)
   \<and> (\<exists>r' columns'. count_blocks (map_row_to_grid r' columns') < length (blocks r'))"
proof (intro conjI)
  show "length (map_row_to_grid r columns) = length columns"
    by (simp add: map_row_to_grid_def length_place_blocks)
  show "\<forall>i < length columns.
         map_row_to_grid r columns ! i =
           (case filter (\<lambda>b. is_first_overlap b columns i) (blocks r) of
              [] \<Rightarrow> None | fs \<Rightarrow> Some (last fs))"
  proof (intro allI impI)
    fix i assume i: "i < length columns"
    then have "columns \<noteq> []" by auto
    then show "map_row_to_grid r columns ! i =
           (case filter (\<lambda>b. is_first_overlap b columns i) (blocks r) of
              [] \<Rightarrow> None | fs \<Rightarrow> Some (last fs))"
      using i place_blocks_nth [of i "replicate (length columns) None" "blocks r" columns]
      by (simp add: map_row_to_grid_def split: list.splits)
  qed
  show "count_blocks (map_row_to_grid r columns) \<le> length (blocks r)"
    using count_place_blocks [of "blocks r" columns "replicate (length columns) None"]
    by (simp add: map_row_to_grid_def count_blocks_def)
  show "\<exists>r' columns'. count_blocks (map_row_to_grid r' columns') < length (blocks r')"
    using shared_row_example by blast
qed

text \<open>
  The theorem at a row whose two blocks both start in column 0: the cell holds the second one.
\<close>

theorem map_row_to_grid_first_column_witness:
  "0 < length ex_two_columns
   \<and> map_row_to_grid ex_shared_row ex_two_columns ! 0 = Some (mk_block ''Surname'' 20 0 60 12 1)
   \<and> count_blocks (map_row_to_grid ex_shared_row ex_two_columns) \<le> 2"
proof -
  have f: "filter (\<lambda>b. is_first_overlap b ex_two_columns 0) (blocks ex_shared_row)
           = [mk_block ''Name'' 10 0 40 12 0, mk_block ''Surname'' 20 0 60 12 1]"
    by (simp add: is_first_overlap_def ex_two_columns_def ex_shared_row_def overlaps_column_def
        mk_block_def)
  have l: "0 < length ex_two_columns" by (simp add: ex_two_columns_def)
  have n: "length (blocks ex_shared_row) = 2" by (simp add: ex_shared_row_def)
  show ?thesis
    using map_row_to_grid_first_column [of ex_shared_row ex_two_columns] l f n by simp
qed

subsection \<open>Deduplication\<close>

lemma box_iou_sym: "box_iou b k = box_iou k b"
  by (simp add: box_iou_def Let_def max.commute min.commute add.commute)

lemma overlaps_sym: "overlaps th c k = overlaps th k c"
  by (simp add: overlaps_def box_iou_sym)

lemma pairwise_apart_snoc:
  assumes "pairwise_apart th keep" "\<not> list_ex (overlaps th c) keep"
  shows "pairwise_apart th (keep @ [c])"
  unfolding pairwise_apart_def
proof (intro allI impI)
  fix i j assume ij: "i < j \<and> j < length (keep @ [c])"
  show "\<not> overlaps th ((keep @ [c]) ! j) ((keep @ [c]) ! i)"
  proof (cases "j < length keep")
    case True
    then show ?thesis using assms(1) ij by (simp add: pairwise_apart_def nth_append)
  next
    case False
    then have j: "j = length keep" using ij by simp
    then have "i < length keep" using ij by simp
    then have "keep ! i \<in> set keep" by simp
    then have "\<not> overlaps th c (keep ! i)" using assms(2) by (auto simp: list_ex_iff)
    then show ?thesis using j \<open>i < length keep\<close> by (simp add: nth_append)
  qed
qed

lemma dedup_loop_pairwise_apart: "pairwise_apart th keep \<Longrightarrow> pairwise_apart th (dedup_loop th keep cs)"
  by (induction cs arbitrary: keep) (auto intro: pairwise_apart_snoc)

lemma dedup_loop_subseq: "\<exists>ys. dedup_loop th keep cs = keep @ ys \<and> subseq ys cs"
proof (induction cs arbitrary: keep)
  case Nil
  then show ?case by simp
next
  case (Cons c cs)
  show ?case
  proof (cases "list_ex (overlaps th c) keep")
    case True
    from Cons.IH [of keep] obtain ys where "dedup_loop th keep cs = keep @ ys" "subseq ys cs"
      by blast
    then show ?thesis using True by (intro exI [of _ ys]) (simp add: list_emb_Cons)
  next
    case False
    from Cons.IH [of "keep @ [c]"] obtain ys
      where "dedup_loop th (keep @ [c]) cs = (keep @ [c]) @ ys" "subseq ys cs" by blast
    then show ?thesis using False by (intro exI [of _ "c # ys"]) simp
  qed
qed

lemma dedup_loop_mono: "set keep \<subseteq> set (dedup_loop th keep cs)"
proof (induction cs arbitrary: keep)
  case Nil
  then show ?case by simp
next
  case (Cons c cs)
  show ?case using Cons.IH [of keep] Cons.IH [of "keep @ [c]"] by auto
qed

lemma dedup_loop_dropped:
  "c \<in> set cs \<Longrightarrow> c \<notin> set (dedup_loop th keep cs)
     \<Longrightarrow> \<exists>k \<in> set (dedup_loop th keep cs). overlaps th c k"
proof (induction cs arbitrary: keep)
  case Nil
  then show ?case by simp
next
  case (Cons d cs)
  show ?case
  proof (cases "c = d")
    case True
    show ?thesis
    proof (cases "list_ex (overlaps th d) keep")
      case ex: True
      then obtain k where "k \<in> set keep" "overlaps th d k" by (auto simp: list_ex_iff)
      then show ?thesis using True dedup_loop_mono [of keep th "d # cs"] by blast
    next
      case False
      then have "d \<in> set (dedup_loop th keep (d # cs))"
        using dedup_loop_mono [of "keep @ [d]" th cs] by simp
      then show ?thesis using True Cons.prems by simp
    qed
  next
    case False
    then have "c \<in> set cs" using Cons.prems by simp
    then show ?thesis using Cons.prems(2) Cons.IH by (auto split: if_splits)
  qed
qed

lemma sort_by_confidence_sorted:
  "sorted_wrt (\<lambda>a b. confidence a \<ge> confidence b) (sort_by_confidence cs)"
proof -
  have "sorted (map (\<lambda>c. - confidence c) (sort_by_confidence cs))"
    by (simp add: sort_by_confidence_def)
  then show ?thesis by (simp add: sorted_map sorted_wrt_iff_nth_less)
qed

lemma set_sort_by_confidence: "set (sort_by_confidence cs) = set cs"
  by (simp add: sort_by_confidence_def)

lemma remove_overlapping_pairwise_apart: "pairwise_apart th (remove_overlapping cs th)"
  using dedup_loop_pairwise_apart [of th "[]"] by (auto simp: remove_overlapping_def pairwise_apart_def)

lemma pairwise_apart_iou:
  assumes "pairwise_apart th xs" "i < j" "j < length xs"
    "box_iou (cbbox (xs ! i)) (cbbox (xs ! j)) = Some v"
  shows "v \<le> th"
proof -
  have "\<not> overlaps th (xs ! j) (xs ! i)" using assms(1-3) by (simp add: pairwise_apart_def)
  then have "\<not> overlaps th (xs ! i) (xs ! j)" by (simp add: overlaps_sym)
  then show ?thesis using assms(4) by (simp add: overlaps_def)
qed

lemma remove_overlapping_subseq: "subseq (remove_overlapping cs th) (sort_by_confidence cs)"
proof (cases "cs = []")
  case True
  then show ?thesis by (simp add: remove_overlapping_def)
next
  case False
  obtain ys where "dedup_loop th [] (sort_by_confidence cs) = [] @ ys"
    "subseq ys (sort_by_confidence cs)"
    using dedup_loop_subseq [of th "[]" "sort_by_confidence cs"] by blast
  then show ?thesis using False by (simp add: remove_overlapping_def)
qed

lemma remove_overlapping_dropped:
  assumes "c \<in> set cs" "c \<notin> set (remove_overlapping cs th)"
  shows "\<exists>k \<in> set (remove_overlapping cs th). \<exists>v. box_iou (cbbox c) (cbbox k) = Some v \<and> v > th"
proof -
  have ne: "cs \<noteq> []" using assms(1) by auto
  then have eq: "remove_overlapping cs th = dedup_loop th [] (sort_by_confidence cs)"
    by (simp add: remove_overlapping_def)
  have "c \<in> set (sort_by_confidence cs)" using assms(1) by (simp add: set_sort_by_confidence)
  then obtain k where "k \<in> set (remove_overlapping cs th)" "overlaps th c k"
    using dedup_loop_dropped [of c "sort_by_confidence cs" th "[]"] assms(2) eq by auto
  then show ?thesis by (auto simp: overlaps_def split: option.splits)
qed

lemma not_overlaps_iff:
  "\<not> overlaps th c k \<longleftrightarrow> (\<forall>v. box_iou (cbbox c) (cbbox k) = Some v \<longrightarrow> v \<le> th)"
  by (auto simp: overlaps_def split: option.splits)

lemma greedy_kept_step:
  assumes g: "greedy_kept th (take n s) is" and n: "n < length s"
  shows "greedy_kept th (take (Suc n) s)
           (if list_ex (overlaps th (s ! n)) (map ((!) s) is) then is else is @ [n])"
proof -
  have lt: "\<forall>i \<in> set is. i < n" using g n by (simp add: greedy_kept_def)
  have srt: "sorted_wrt (<) is" using g by (simp add: greedy_kept_def)
  have old: "\<forall>i < n. i \<in> set is \<longleftrightarrow> (\<forall>j \<in> set is. j < i \<longrightarrow> \<not> overlaps th (s ! i) (s ! j))"
  proof (intro allI impI)
    fix i assume i: "i < n"
    have "i \<in> set is \<longleftrightarrow>
          (\<forall>j \<in> set is. j < i \<longrightarrow>
             (\<forall>v. box_iou (cbbox (take n s ! i)) (cbbox (take n s ! j)) = Some v \<longrightarrow> v \<le> th))"
      using g i n by (simp add: greedy_kept_def)
    moreover have "take n s ! i = s ! i" using i by simp
    moreover have "\<forall>j \<in> set is. j < i \<longrightarrow> take n s ! j = s ! j" using i by simp
    ultimately show "i \<in> set is \<longleftrightarrow> (\<forall>j \<in> set is. j < i \<longrightarrow> \<not> overlaps th (s ! i) (s ! j))"
      by (simp add: not_overlaps_iff)
  qed
  have ex: "list_ex (overlaps th (s ! n)) (map ((!) s) is)
              \<longleftrightarrow> \<not> (\<forall>j \<in> set is. j < n \<longrightarrow> \<not> overlaps th (s ! n) (s ! j))"
    using lt by (auto simp: list_ex_iff)
  define is' where "is' = (if list_ex (overlaps th (s ! n)) (map ((!) s) is) then is else is @ [n])"
  have set': "set is' \<subseteq> set is \<union> {n}" "set is \<subseteq> set is'"
    by (auto simp: is'_def)
  have n_in: "n \<in> set is' \<longleftrightarrow> \<not> list_ex (overlaps th (s ! n)) (map ((!) s) is)"
    using lt by (auto simp: is'_def)
  have s1: "sorted_wrt (<) is'" using srt lt by (auto simp: is'_def sorted_wrt_append)
  have s2: "\<forall>i \<in> set is'. i < length (take (Suc n) s)"
  proof
    fix i assume "i \<in> set is'"
    then have "i \<in> set is \<or> i = n" using set'(1) by auto
    then have "i \<le> n" using lt by auto
    then show "i < length (take (Suc n) s)" using n by simp
  qed
  have s3: "\<forall>i < length (take (Suc n) s).
            i \<in> set is' \<longleftrightarrow>
              (\<forall>j \<in> set is'. j < i \<longrightarrow>
                 (\<forall>v. box_iou (cbbox (take (Suc n) s ! i)) (cbbox (take (Suc n) s ! j)) = Some v
                      \<longrightarrow> v \<le> th))"
  proof (intro allI impI)
    fix i assume "i < length (take (Suc n) s)"
    then have i: "i \<le> n" using n by simp
    have nth: "take (Suc n) s ! i = s ! i" using i by simp
    have nthj: "\<forall>j. j < i \<longrightarrow> take (Suc n) s ! j = s ! j" using i by simp
    have below: "\<forall>j. j < i \<longrightarrow> (j \<in> set is' \<longleftrightarrow> j \<in> set is)"
      using set' i by auto
    have "i \<in> set is' \<longleftrightarrow> (\<forall>j \<in> set is. j < i \<longrightarrow> \<not> overlaps th (s ! i) (s ! j))"
    proof (cases "i = n")
      case True
      then show ?thesis using n_in ex by simp
    next
      case False
      then have "i < n" using i by simp
      moreover have "i \<in> set is' \<longleftrightarrow> i \<in> set is" using set' False by auto
      ultimately show ?thesis using old by simp
    qed
    also have "\<dots> \<longleftrightarrow> (\<forall>j \<in> set is'. j < i \<longrightarrow> \<not> overlaps th (s ! i) (s ! j))"
      using below by blast
    finally show "i \<in> set is' \<longleftrightarrow>
              (\<forall>j \<in> set is'. j < i \<longrightarrow>
                 (\<forall>v. box_iou (cbbox (take (Suc n) s ! i)) (cbbox (take (Suc n) s ! j)) = Some v
                      \<longrightarrow> v \<le> th))"
      using nth nthj by (simp add: not_overlaps_iff)
  qed
  from s1 s2 s3 show ?thesis unfolding is'_def [symmetric] greedy_kept_def by blast
qed

lemma dedup_loop_greedy:
  assumes "greedy_kept th (take n s) is" "n \<le> length s"
  shows "\<exists>is'. greedy_kept th s is' \<and> dedup_loop th (map ((!) s) is) (drop n s) = map ((!) s) is'"
  using assms
proof (induction "length s - n" arbitrary: n "is")
  case 0
  then have "n = length s" by simp
  then show ?case using "0.prems" by (intro exI [of _ "is"]) simp
next
  case (Suc m)
  then have n: "n < length s" by simp
  define is1 where "is1 = (if list_ex (overlaps th (s ! n)) (map ((!) s) is) then is else is @ [n])"
  have g1: "greedy_kept th (take (Suc n) s) is1"
    unfolding is1_def using greedy_kept_step [OF Suc.prems(1) n] .
  have "m = length s - Suc n" using Suc.hyps(2) by simp
  from Suc.hyps(1) [OF this g1] n obtain is' where
    is': "greedy_kept th s is'" "dedup_loop th (map ((!) s) is1) (drop (Suc n) s) = map ((!) s) is'"
    by auto
  have "drop n s = s ! n # drop (Suc n) s" using n by (simp add: Cons_nth_drop_Suc)
  then have "dedup_loop th (map ((!) s) is) (drop n s)
               = dedup_loop th (map ((!) s) is1) (drop (Suc n) s)"
    by (simp add: is1_def)
  with is' show ?case by auto
qed

lemma remove_overlapping_greedy:
  "\<exists>is. greedy_kept th (sort_by_confidence cs) is
        \<and> remove_overlapping cs th = map ((!) (sort_by_confidence cs)) is"
proof (cases "cs = []")
  case True
  then show ?thesis
    by (intro exI [of _ "[]"]) (simp add: remove_overlapping_def greedy_kept_def sort_by_confidence_def)
next
  case False
  have "greedy_kept th (take 0 (sort_by_confidence cs)) []" by (simp add: greedy_kept_def)
  from dedup_loop_greedy [OF this] False show ?thesis by (simp add: remove_overlapping_def)
qed

lemma sort_by_confidence_stable:
  "filter (\<lambda>c. confidence c = k) (sort_by_confidence cs) = filter (\<lambda>c. confidence c = k) cs"
  using sort_key_stable [of "\<lambda>c. - confidence c" "- k" cs] by (simp add: sort_by_confidence_def)

lemma length_sort_by_confidence: "length (sort_by_confidence cs) = length cs"
  by (simp add: sort_by_confidence_def)

lemma apart_boxes_iou:
  fixes xa ya ra xb yb rb :: int
  assumes apart: "(ra + rb)\<^sup>2 \<le> (xa - xb)\<^sup>2 + (ya - yb)\<^sup>2"
    and iou: "box_iou \<lparr>x0 = xa - ra, y0 = ya - ra, x1 = xa + ra, y1 = ya + ra\<rparr>
                \<lparr>x0 = xb - rb, y0 = yb - rb, x1 = xb + rb, y1 = yb + rb\<rparr> = Some v"
  shows "v \<le> 1 / 7"
proof -
  define w where "w = min (xa + ra) (xb + rb) - max (xa - ra) (xb - rb)"
  define h where "h = min (ya + ra) (yb + rb) - max (ya - ra) (yb - rb)"
  define s where "s = ra + rb"
  define a where "a = \<bar>xa - xb\<bar>"
  define b where "b = \<bar>ya - yb\<bar>"
  define A where "A = (xa + ra - (xa - ra)) * (ya + ra - (ya - ra))
                      + (xb + rb - (xb - rb)) * (yb + rb - (yb - rb))"
  have pos: "0 < w" "0 < h"
    using iou by (auto simp: box_iou_def Let_def w_def h_def split: if_splits)
  have v: "v = (if A - w * h > 0 then of_int (w * h) / of_int (A - w * h) else 0)"
    using iou pos
    by (auto simp: box_iou_def Let_def w_def h_def A_def split: if_splits)
  have wa: "w \<le> s - a" and hb: "h \<le> s - b"
    by (auto simp: w_def h_def s_def a_def b_def)
  have a0: "0 \<le> a" and b0: "0 \<le> b" by (simp_all add: a_def b_def)
  have sq: "s\<^sup>2 \<le> a\<^sup>2 + b\<^sup>2" using apart by (simp add: s_def a_def b_def)
  have ab: "s \<le> a + b"
  proof (rule ccontr)
    assume "\<not> s \<le> a + b"
    then have "a + b < s" by simp
    then have "(a + b)\<^sup>2 < s\<^sup>2" using a0 b0 by (intro power_strict_mono) auto
    moreover have "a\<^sup>2 + b\<^sup>2 \<le> (a + b)\<^sup>2" using a0 b0 by (simp add: power2_sum)
    ultimately show False using sq by simp
  qed
  have "w * h \<le> (s - a) * (s - b)" using wa hb pos by (intro mult_mono) auto
  also have "\<dots> \<le> b * (s - b)" using ab hb pos by (intro mult_right_mono) auto
  finally have wh: "w * h \<le> b * (s - b)" .
  have "0 \<le> (s - 2 * b)\<^sup>2" by simp
  then have "4 * (b * (s - b)) \<le> s\<^sup>2" by (simp add: power2_eq_square algebra_simps)
  with wh have 1: "4 * (w * h) \<le> s\<^sup>2" by simp
  have "0 \<le> (ra - rb)\<^sup>2" by simp
  then have "2 * s\<^sup>2 \<le> A" by (simp add: A_def s_def power2_eq_square algebra_simps)
  with 1 have 8: "8 * (w * h) \<le> A" by simp
  have whpos: "0 < w * h" using pos by simp
  then have U: "0 < A - w * h" using 8 by simp
  define I where "I = w * h"
  define U where "U = A - w * h"
  have "7 * I \<le> U" using 8 unfolding I_def U_def by linarith
  then have "real_of_int (7 * I) \<le> real_of_int U" by (simp only: of_int_le_iff)
  then have 7: "7 * real_of_int I \<le> real_of_int U" by simp
  have "0 < U" using U by (simp only: U_def)
  then have Upos: "0 < real_of_int U" by (simp only: of_int_0_less_iff)
  have frac: "x / y \<le> 1 / 7" if "7 * x \<le> y" "0 < y" for x y :: real
    using that by (simp add: field_simps)
  have "real_of_int (w * h) / real_of_int (A - w * h) \<le> 1 / 7"
    using frac [OF 7 Upos] by (simp only: I_def U_def)
  then show ?thesis using v U by simp
qed

lemma radio_of_circle_box:
  "radio_of_circle iw ih c = Some k \<Longrightarrow>
     cbbox k = \<lparr>x0 = circ_x c - circ_r c, y0 = circ_y c - circ_r c,
                x1 = circ_x c + circ_r c, y1 = circ_y c + circ_r c\<rparr>"
  by (auto simp: radio_of_circle_def Let_def split: if_splits)

lemma sorted_wrt_map_filter:
  assumes "sorted_wrt Q xs" "\<And>x y a b. Q x y \<Longrightarrow> f x = Some a \<Longrightarrow> f y = Some b \<Longrightarrow> P a b"
  shows "sorted_wrt P (List.map_filter f xs)"
  using assms(1)
proof (induction xs)
  case Nil
  then show ?case by (simp add: List.map_filter_simps)
next
  case (Cons x xs)
  have set: "set (List.map_filter f xs) = {b. \<exists>y \<in> set xs. f y = Some b}"
    by (force simp: List.map_filter_def image_iff)
  show ?case
  proof (cases "f x")
    case None
    then show ?thesis using Cons by (simp add: List.map_filter_simps)
  next
    case (Some a)
    have "\<forall>b \<in> set (List.map_filter f xs). P a b"
      using Cons.prems Some assms(2) by (auto simp: set)
    then show ?thesis using Cons Some by (simp add: List.map_filter_simps)
  qed
qed

lemma circles_apart_sorted_wrt:
  "circles_apart cs \<longleftrightarrow>
     sorted_wrt (\<lambda>c d. (circ_r c + circ_r d)\<^sup>2
                         \<le> (circ_x c - circ_x d)\<^sup>2 + (circ_y c - circ_y d)\<^sup>2) cs"
  by (auto simp: circles_apart_def sorted_wrt_iff_nth_less)

lemma radio_boxes_apart:
  assumes "circles_apart cs"
  shows "sorted_wrt (\<lambda>k k'. \<forall>v. box_iou (cbbox k) (cbbox k') = Some v \<longrightarrow> v \<le> 1 / 7)
           (detect_radio_buttons iw ih cs)"
  unfolding detect_radio_buttons_def
proof (rule sorted_wrt_map_filter [OF assms [unfolded circles_apart_sorted_wrt]])
  fix c d k k'
  assume ap: "(circ_r c + circ_r d)\<^sup>2 \<le> (circ_x c - circ_x d)\<^sup>2 + (circ_y c - circ_y d)\<^sup>2"
    and k: "radio_of_circle iw ih c = Some k" and k': "radio_of_circle iw ih d = Some k'"
  show "\<forall>v. box_iou (cbbox k) (cbbox k') = Some v \<longrightarrow> v \<le> 1 / 7"
    using apart_boxes_iou [OF ap] by (simp add: radio_of_circle_box [OF k] radio_of_circle_box [OF k'])
qed

lemma detect_radio_buttons_append:
  "detect_radio_buttons iw ih (cs @ ds)
     = detect_radio_buttons iw ih cs @ detect_radio_buttons iw ih ds"
  by (simp add: detect_radio_buttons_def List.map_filter_def)

text \<open>
  Claim C5, as amended. \<open>remove_overlapping\<close> sorts the detections by confidence, descending
  and stable, and walks through the sorted list: a detection is kept exactly when its IoU with
  every detection kept before it does not exceed the threshold (an IoU equal to the threshold
  keeps it), so any two kept detections have an IoU of at most the threshold. The checkbox
  detector applies it with threshold 0.3 and the input-box detector with threshold 0.5. The
  radio-button detector does not apply it: it judges every circle on its own and returns the
  circles that pass in the order of the circle detector, and when the circles do not cross,
  any two radio boxes have an IoU of at most 1/7.
\<close>

theorem remove_overlapping_iou_invariant:
  "length (sort_by_confidence controls) = length controls
   \<and> (\<forall>k. filter (\<lambda>c. confidence c = k) (sort_by_confidence controls)
            = filter (\<lambda>c. confidence c = k) controls)
   \<and> sorted_wrt (\<lambda>a b. confidence a \<ge> confidence b) (sort_by_confidence controls)
   \<and> (\<exists>is. greedy_kept th (sort_by_confidence controls) is
            \<and> remove_overlapping controls th = map ((!) (sort_by_confidence controls)) is)
   \<and> (\<forall>i j. i < j \<and> j < length (remove_overlapping controls th) \<longrightarrow>
         (\<forall>v. box_iou (cbbox (remove_overlapping controls th ! i))
                 (cbbox (remove_overlapping controls th ! j)) = Some v \<longrightarrow> v \<le> th))
   \<and> (\<forall>i j. i < j \<and> j < length (detect_checkboxes min_size max_size contours) \<longrightarrow>
         (\<forall>v. box_iou (cbbox (detect_checkboxes min_size max_size contours ! i))
                 (cbbox (detect_checkboxes min_size max_size contours ! j)) = Some v
               \<longrightarrow> v \<le> 3 / 10))
   \<and> (\<forall>i j. i < j \<and> j < length (detect_input_boxes min_width min_height max_height contours)
         \<longrightarrow> (\<forall>v. box_iou
                     (cbbox (detect_input_boxes min_width min_height max_height contours ! i))
                     (cbbox (detect_input_boxes min_width min_height max_height contours ! j))
                   = Some v \<longrightarrow> v \<le> 5 / 10))
   \<and> detect_radio_buttons img_width img_height (circs @ more_circs)
       = detect_radio_buttons img_width img_height circs
         @ detect_radio_buttons img_width img_height more_circs
   \<and> (circles_apart circs \<longrightarrow>
        (\<forall>i j. i < j \<and> j < length (detect_radio_buttons img_width img_height circs) \<longrightarrow>
           (\<forall>v. box_iou (cbbox (detect_radio_buttons img_width img_height circs ! i))
                   (cbbox (detect_radio_buttons img_width img_height circs ! j)) = Some v
                 \<longrightarrow> v \<le> 1 / 7)))"
proof (intro conjI)
  show "length (sort_by_confidence controls) = length controls"
    by (rule length_sort_by_confidence)
  show "\<forall>k. filter (\<lambda>c. confidence c = k) (sort_by_confidence controls)
            = filter (\<lambda>c. confidence c = k) controls"
    by (simp add: sort_by_confidence_stable)
  show "sorted_wrt (\<lambda>a b. confidence a \<ge> confidence b) (sort_by_confidence controls)"
    by (rule sort_by_confidence_sorted)
  show "\<exists>is. greedy_kept th (sort_by_confidence controls) is
            \<and> remove_overlapping controls th = map ((!) (sort_by_confidence controls)) is"
    by (rule remove_overlapping_greedy)
  show "\<forall>i j. i < j \<and> j < length (remove_overlapping controls th) \<longrightarrow>
         (\<forall>v. box_iou (cbbox (remove_overlapping controls th ! i))
                 (cbbox (remove_overlapping controls th ! j)) = Some v \<longrightarrow> v \<le> th)"
    using pairwise_apart_iou [OF remove_overlapping_pairwise_apart] by blast
  show "\<forall>i j. i < j \<and> j < length (detect_checkboxes min_size max_size contours) \<longrightarrow>
         (\<forall>v. box_iou (cbbox (detect_checkboxes min_size max_size contours ! i))
                 (cbbox (detect_checkboxes min_size max_size contours ! j)) = Some v
               \<longrightarrow> v \<le> 3 / 10)"
    unfolding detect_checkboxes_def
    using pairwise_apart_iou [OF remove_overlapping_pairwise_apart] by blast
  show "\<forall>i j. i < j \<and> j < length (detect_input_boxes min_width min_height max_height contours)
         \<longrightarrow> (\<forall>v. box_iou
                     (cbbox (detect_input_boxes min_width min_height max_height contours ! i))
                     (cbbox (detect_input_boxes min_width min_height max_height contours ! j))
                   = Some v \<longrightarrow> v \<le> 5 / 10)"
    unfolding detect_input_boxes_def
    using pairwise_apart_iou [OF remove_overlapping_pairwise_apart] by blast
  show "detect_radio_buttons img_width img_height (circs @ more_circs)
       = detect_radio_buttons img_width img_height circs
         @ detect_radio_buttons img_width img_height more_circs"
    by (rule detect_radio_buttons_append)
  show "circles_apart circs \<longrightarrow>
        (\<forall>i j. i < j \<and> j < length (detect_radio_buttons img_width img_height circs) \<longrightarrow>
           (\<forall>v. box_iou (cbbox (detect_radio_buttons img_width img_height circs ! i))
                   (cbbox (detect_radio_buttons img_width img_height circs ! j)) = Some v
                 \<longrightarrow> v \<le> 1 / 7))"
  proof (intro impI allI)
    fix i j v
    assume ap: "circles_apart circs"
      and ij: "i < j \<and> j < length (detect_radio_buttons img_width img_height circs)"
      and iou: "box_iou (cbbox (detect_radio_buttons img_width img_height circs ! i))
                  (cbbox (detect_radio_buttons img_width img_height circs ! j)) = Some v"
    from radio_boxes_apart [OF ap, of img_width img_height] ij iou
    show "v \<le> 1 / 7" unfolding sorted_wrt_iff_nth_less by blast
  qed
qed

text \<open>
  The theorem at the four checkbox detections and at the two circles on a diagonal. In the
  sorted list the detection of confidence 0.9 comes first and is kept, the one of confidence
  0.7 that it covers comes second and is dropped; the first and the last kept detections
  have an IoU of 9/191. The two radio boxes have an IoU of 1/49.
\<close>

theorem remove_overlapping_iou_invariant_witness:
  "(\<exists>is. greedy_kept (3 / 10) (sort_by_confidence ex_detections) is
         \<and> 0 \<in> set is \<and> 1 \<notin> set is
         \<and> remove_overlapping ex_detections (3 / 10)
             = map ((!) (sort_by_confidence ex_detections)) is)
   \<and> (0::nat) < 2 \<and> 2 < length (remove_overlapping ex_detections (3 / 10))
   \<and> box_iou (cbbox (remove_overlapping ex_detections (3 / 10) ! 0))
        (cbbox (remove_overlapping ex_detections (3 / 10) ! 2)) = Some (9 / 191)
   \<and> (9 / 191 :: real) \<le> 3 / 10
   \<and> circles_apart ex_near_circles
   \<and> (0::nat) < 1 \<and> 1 < length (detect_radio_buttons 1000 1000 ex_near_circles)
   \<and> box_iou (cbbox (detect_radio_buttons 1000 1000 ex_near_circles ! 0))
        (cbbox (detect_radio_buttons 1000 1000 ex_near_circles ! 1)) = Some (1 / 49)
   \<and> (1 / 49 :: real) \<le> 1 / 7"
proof -
  note t = remove_overlapping_iou_invariant [of ex_detections "3 / 10" _ _ _ _ _ _ 1000 1000
      ex_near_circles "[]"]
  have s: "sort_by_confidence ex_detections =
     [mk_checkbox 1 1 11 11 (9 / 10), mk_checkbox 0 0 10 10 (7 / 10),
      mk_checkbox 100 100 110 110 (7 / 10), mk_checkbox 8 8 18 18 (5 / 10)]"
    by code_simp
  have k: "remove_overlapping ex_detections (3 / 10) =
     [mk_checkbox 1 1 11 11 (9 / 10), mk_checkbox 100 100 110 110 (7 / 10),
      mk_checkbox 8 8 18 18 (5 / 10)]"
    by code_simp
  from t [THEN conjunct2, THEN conjunct2, THEN conjunct2, THEN conjunct1]
  obtain "is" where g: "greedy_kept (3 / 10) (sort_by_confidence ex_detections) is"
    and r: "remove_overlapping ex_detections (3 / 10)
              = map ((!) (sort_by_confidence ex_detections)) is"
    by blast
  have c3: "\<forall>i < length (sort_by_confidence ex_detections).
            i \<in> set is \<longleftrightarrow>
              (\<forall>j \<in> set is. j < i \<longrightarrow>
                 (\<forall>v. box_iou (cbbox (sort_by_confidence ex_detections ! i))
                        (cbbox (sort_by_confidence ex_detections ! j)) = Some v
                      \<longrightarrow> v \<le> 3 / 10))"
    using g unfolding greedy_kept_def by blast
  have z: "0 \<in> set is" using c3 [rule_format, of 0] by (simp add: s)
  have i10: "box_iou (cbbox (sort_by_confidence ex_detections ! 1))
               (cbbox (sort_by_confidence ex_detections ! 0)) = Some (81 / 119)"
    by (simp add: s box_iou_def mk_checkbox_def)
  have o: "1 \<notin> set is"
  proof
    assume "1 \<in> set is"
    moreover have "1 < length (sort_by_confidence ex_detections)" by (simp add: s)
    ultimately have "\<forall>j \<in> set is. j < 1 \<longrightarrow>
                 (\<forall>v. box_iou (cbbox (sort_by_confidence ex_detections ! 1))
                        (cbbox (sort_by_confidence ex_detections ! j)) = Some v
                      \<longrightarrow> v \<le> 3 / 10)"
      using c3 [rule_format, of 1] by blast
    moreover have "(0::nat) < 1" by simp
    ultimately have "\<forall>v. box_iou (cbbox (sort_by_confidence ex_detections ! 1))
                        (cbbox (sort_by_confidence ex_detections ! 0)) = Some v
                      \<longrightarrow> v \<le> 3 / 10"
      using z by blast
    with i10 have "(81 / 119 :: real) \<le> 3 / 10" by blast
    then show False by simp
  qed
  from g z o r have a0: "\<exists>is. greedy_kept (3 / 10) (sort_by_confidence ex_detections) is
         \<and> 0 \<in> set is \<and> 1 \<notin> set is
         \<and> remove_overlapping ex_detections (3 / 10)
             = map ((!) (sort_by_confidence ex_detections)) is"
    by blast
  have a: "(0::nat) < 2 \<and> 2 < length (remove_overlapping ex_detections (3 / 10))"
    by (simp add: k)
  have b: "box_iou (cbbox (remove_overlapping ex_detections (3 / 10) ! 0))
        (cbbox (remove_overlapping ex_detections (3 / 10) ! 2)) = Some (9 / 191)"
    by (simp add: k box_iou_def mk_checkbox_def)
  have c: "(9 / 191 :: real) \<le> 3 / 10"
    using t [THEN conjunct2, THEN conjunct2, THEN conjunct2, THEN conjunct2, THEN conjunct1,
        rule_format, of 0 2 "9 / 191"] a b
    by simp
  have d: "circles_apart ex_near_circles"
    by (simp add: circles_apart_sorted_wrt ex_near_circles_def)
  have rk: "map cbbox (detect_radio_buttons 1000 1000 ex_near_circles) =
     [\<lparr>x0 = 90, y0 = 90, x1 = 110, y1 = 110\<rparr>, \<lparr>x0 = 106, y0 = 106, x1 = 126, y1 = 126\<rparr>]"
    by code_simp
  have len: "length (detect_radio_buttons 1000 1000 ex_near_circles) = 2"
    using arg_cong [OF rk, of length] by simp
  have e: "(0::nat) < 1 \<and> 1 < length (detect_radio_buttons 1000 1000 ex_near_circles)"
    by (simp add: len)
  have b0: "cbbox (detect_radio_buttons 1000 1000 ex_near_circles ! 0)
              = \<lparr>x0 = 90, y0 = 90, x1 = 110, y1 = 110\<rparr>"
    using arg_cong [OF rk, of "\<lambda>xs. xs ! 0"] len by simp
  have b1: "cbbox (detect_radio_buttons 1000 1000 ex_near_circles ! 1)
              = \<lparr>x0 = 106, y0 = 106, x1 = 126, y1 = 126\<rparr>"
    using arg_cong [OF rk, of "\<lambda>xs. xs ! 1"] len by simp
  have f: "box_iou (cbbox (detect_radio_buttons 1000 1000 ex_near_circles ! 0))
        (cbbox (detect_radio_buttons 1000 1000 ex_near_circles ! 1)) = Some (1 / 49)"
    unfolding b0 b1 by (simp add: box_iou_def)
  have h: "(1 / 49 :: real) \<le> 1 / 7"
    using t [THEN conjunct2, THEN conjunct2, THEN conjunct2, THEN conjunct2, THEN conjunct2,
        THEN conjunct2, THEN conjunct2, THEN conjunct2, rule_format, OF d, of 0 1 "1 / 49"] e f
    by simp
  from a0 a b c d e f h show ?thesis by (intro conjI) simp_all
qed

text \<open>
  Claim C5 as stated fails twice. The boxes of the two checkbox contours have an IoU of
  exactly 0.3, which is not below the threshold of 0.3, and both are kept. The radio-button
  detector returns the two circles in the order of the circle detector, the weaker ring
  first, where a list sorted by confidence would start with the stronger one.
\<close>

theorem kept_at_threshold_and_radios_unsorted:
  "map cbbox (detect_checkboxes 8 30 ex_threshold_contours)
     = [\<lparr>x0 = 100, y0 = 100, x1 = 113, y1 = 113\<rparr>, \<lparr>x0 = 107, y0 = 100, x1 = 120, y1 = 113\<rparr>]
   \<and> box_iou \<lparr>x0 = 100, y0 = 100, x1 = 113, y1 = 113\<rparr> \<lparr>x0 = 107, y0 = 100, x1 = 120, y1 = 113\<rparr>
       = Some (3 / 10)
   \<and> map confidence (detect_radio_buttons 1000 1000 ex_circles) = [8 / 10, 1]
   \<and> map confidence (remove_overlapping (detect_radio_buttons 1000 1000 ex_circles) (5 / 10))
       = [1, 8 / 10]"
  by code_simp


subsection \<open>Span detection\<close>

text \<open>
  Claim C6 (the spans of a cell grid cover pairwise disjoint sets of cells) does not hold of
  \<open>detect_spans\<close>. On the grid of two rows and two columns whose only texts are in the cells
  (0, 1) and (1, 0), the span that starts at (0, 1) extends down over the empty cell (1, 1)
  and the span that starts at (1, 0) extends right over the same cell: the scans test the
  content of a cell, never whether it has been consumed.
\<close>

theorem detect_spans_double_counts_cell:
  "map_sum id (map span_shape) (detect_spans ex_diagonal_grid)
     = Inr [(0, 0, 1, 1), (0, 1, 2, 1), (1, 0, 1, 2)]
   \<and> map_sum id (map (\<lambda>s. covers s (1, 1))) (detect_spans ex_diagonal_grid)
     = Inr [False, True, True]"
  by code_simp

subsection \<open>Page classification\<close>

text \<open>
  Claim C7, as amended. Unless the page has blocks and a zero area (where the density cannot
  be computed), the classifier returns a classification whose page type and reason are those
  of the rule table \<open>page_rules\<close>, first match wins: no blocks gives text, before any other
  rule; at least 2 controls give form; a density above 5 with no controls gives text; at least
  2 estimated columns with no controls give text; an alignment score above 0.4 with an average
  width ratio below 0.6 and a density below 5 gives form; a width ratio above 0.7 with a
  density above 0.5 gives text; otherwise form. The pair is a function of these signals alone.
\<close>

theorem classify_page_type_rules:
  "blks = [] \<or> page_width * page_height \<noteq> 0 \<Longrightarrow>
   \<exists>c. classify_page_type blks columns page_width page_height n_controls = Inr c
       \<and> verdict c =
           page_rules (blks = []) n_controls (column_count_of blks columns)
             (text_density_of blks page_width page_height) (width_ratio_of blks page_width)
             (alignment_score_of blks)"
  by (auto simp: classify_page_type_def page_rules_def verdict_def Let_def)

text \<open>The signals of the four wide lines.\<close>

lemma ex_strip_signals:
  "column_count_of ex_strip_blocks [50] = 1"
  "text_density_of ex_strip_blocks 600 100 = 2 / 3"
  "width_ratio_of ex_strip_blocks 600 = 5 / 6"
  "alignment_score_of ex_strip_blocks = 1"
  by code_simp+

text \<open>The theorem at the four wide lines: the verdict is that of the prose rule.\<close>

theorem classify_page_type_rules_witness:
  "(ex_strip_blocks = [] \<or> (600::real) * 100 \<noteq> 0)
   \<and> (\<exists>c. classify_page_type ex_strip_blocks [50] 600 100 0 = Inr c
          \<and> verdict c = (Text, ''prose_layout''))"
proof -
  have h: "ex_strip_blocks = [] \<or> (600::real) * 100 \<noteq> 0" by simp
  have r: "page_rules (ex_strip_blocks = []) 0 1 (2 / 3) (5 / 6) 1 = (Text, ''prose_layout'')"
    by (simp add: page_rules_def ex_strip_blocks_def)
  from classify_page_type_rules [OF h, of "[50]" 0]
  have "\<exists>c. classify_page_type ex_strip_blocks [50] 600 100 0 = Inr c
          \<and> verdict c = (Text, ''prose_layout'')"
    unfolding ex_strip_signals r .
  with h show ?thesis by (rule conjI)
qed

text \<open>
  Claim C7 as stated fails twice. A page without blocks but with 2 controls is a text page,
  although rule (a) comes first in the claim; and four aligned lines (alignment score 1) of
  moderate density (2/3) are a text page, because the alignment rule also asks for narrow
  blocks.
\<close>

theorem classify_page_type_counterexample:
  "classify_page_type [] [] 600 800 2
     = Inr \<lparr>page_type = Text, signals = None, reason = ''no blocks''\<rparr>
   \<and> alignment_score_of ex_strip_blocks = 1
   \<and> text_density_of ex_strip_blocks 600 100 = 2 / 3
   \<and> map_sum id verdict (classify_page_type ex_strip_blocks [50] 600 100 0)
       = Inr (Text, ''prose_layout'')"
  by code_simp

subsection \<open>Alignment of controls\<close>

lemma fold_max_ge: "k \<le> fold max xs (a::nat) \<longleftrightarrow> k \<le> a \<or> (\<exists>x \<in> set xs. k \<le> x)"
  by (induction xs arbitrary: a) (auto simp: le_max_iff_disj)

lemma count_list_map: "count_list (map f xs) v = length (filter (\<lambda>x. f x = v) xs)"
  by (induction xs) auto

lemma set_counter: "set (counter xs) = (\<lambda>v. (v, count_list xs v)) ` set xs"
  by (simp add: counter_def)

lemma length_filter_pos_in_set:
  "0 < length (filter (\<lambda>x. f x = v) xs) \<Longrightarrow> v \<in> f ` set xs"
  by (induction xs) (auto split: if_splits)

lemma max_count_ge:
  "3 \<le> fold max (map snd (filter (\<lambda>xc. P (fst xc)) (counter (map f cs)))) 0
     \<longleftrightarrow> (\<exists>v. P v \<and> 3 \<le> length (filter (\<lambda>c. f c = v) cs))" (is "?L \<longleftrightarrow> ?R")
proof
  assume ?L
  then obtain xc where "xc \<in> set (counter (map f cs))" "P (fst xc)" "3 \<le> snd xc"
    by (auto simp: fold_max_ge)
  then show ?R by (auto simp: set_counter count_list_map)
next
  assume ?R
  then obtain v where v: "P v" "3 \<le> length (filter (\<lambda>c. f c = v) cs)" by blast
  from v(2) have "v \<in> f ` set cs"
    by (intro length_filter_pos_in_set) linarith
  then have "(v, count_list (map f cs) v) \<in> set (counter (map f cs))"
    by (auto simp: set_counter)
  with v have "\<exists>xc \<in> set (filter (\<lambda>xc. P (fst xc)) (counter (map f cs))). 3 \<le> snd xc"
    by (intro bexI [of _ "(v, count_list (map f cs) v)"]) (auto simp: count_list_map)
  then show ?L by (auto simp: fold_max_ge)
qed

lemma check_controls_aligned_iff:
  assumes "sf \<noteq> 0"
  shows "check_controls_aligned cs sf pw = Inr (grid_aligned cs sf pw)"
proof (cases "length cs < 3")
  case True
  have "length (filter P cs) < 3" for P
    using True length_filter_le [of P cs] by linarith
  then have "\<not> grid_aligned cs sf pw"
    by (auto simp: grid_aligned_def not_le)
  then show ?thesis using True by (simp add: check_controls_aligned_def)
next
  case False
  have y: "3 \<le> fold max (map snd (counter (map (cluster_y sf) cs))) 0
        \<longleftrightarrow> (\<exists>v. 3 \<le> length (filter (\<lambda>c. cluster_y sf c = v) cs))"
    using max_count_ge [of "\<lambda>_. True" "cluster_y sf" cs] by simp
  note x = max_count_ge [of "\<lambda>v. pw * (5 / 100) \<le> real_of_int v" "cluster_x sf" cs]
  show ?thesis
    unfolding check_controls_aligned_def grid_aligned_def Let_def
    using False assms
    by (simp only: x y if_False)
qed

text \<open>
  Claim C3, as amended. When the scale factor is not zero and the size-valid controls are
  grid-aligned (at least 3 share a clustered x-coordinate outside the left margin band, or at
  least 3 share a clustered y-coordinate), the filter keeps every size-valid control except
  those whose centre lies in the bounding box of a text block widened by 5 points
  horizontally and 2 points vertically. Labels play no part in this branch.
\<close>

theorem aligned_controls_all_kept:
  "sf \<noteq> 0 \<Longrightarrow> grid_aligned (size_valid raw sf) sf pw \<Longrightarrow>
   filter_valid_controls raw blks sf pw
     = Inr (filter (\<lambda>c. \<not> is_inside_text c blks sf) (size_valid raw sf))"
  by (simp add: filter_valid_controls_def check_controls_aligned_iff)

text \<open>
  The theorem at the five aligned checkboxes: all five are retained although the last two
  have no label to their left.
\<close>

theorem aligned_controls_all_kept_witness:
  "(2::real) \<noteq> 0 \<and> grid_aligned (size_valid ex_grid_controls 2) 2 600
   \<and> filter_valid_controls ex_grid_controls ex_grid_labels 2 600 = Inr ex_grid_controls
   \<and> has_label_to_left (ex_grid_controls ! 3) ex_grid_labels 2 = Inr False
   \<and> has_label_to_left (ex_grid_controls ! 4) ex_grid_labels 2 = Inr False"
proof -
  have h1: "(2::real) \<noteq> 0" by simp
  have "check_controls_aligned (size_valid ex_grid_controls 2) 2 600 = Inr True"
    by code_simp
  then have h2: "grid_aligned (size_valid ex_grid_controls 2) 2 600"
    using check_controls_aligned_iff [OF h1, of "size_valid ex_grid_controls 2" 600] by simp
  have k: "filter (\<lambda>c. \<not> is_inside_text c ex_grid_labels 2) (size_valid ex_grid_controls 2)
             = ex_grid_controls"
    by code_simp
  have l: "has_label_to_left (ex_grid_controls ! 3) ex_grid_labels 2 = Inr False"
    "has_label_to_left (ex_grid_controls ! 4) ex_grid_labels 2 = Inr False"
    by code_simp+
  from aligned_controls_all_kept [OF h1 h2, of ex_grid_labels]
  have "filter_valid_controls ex_grid_controls ex_grid_labels 2 600 = Inr ex_grid_controls"
    unfolding k .
  with h1 h2 l show ?thesis by (intro conjI)
qed

text \<open>
  Claim C3 as stated fails: the three checkboxes are size-valid and grid-aligned, the centre
  of the first lies to the right of its label's bounding box, not inside it, and the first
  checkbox is discarded all the same.
\<close>

theorem adjacent_control_discarded:
  "size_valid ex_adjacent_controls 2 = ex_adjacent_controls
   \<and> check_controls_aligned ex_adjacent_controls 2 600 = Inr True
   \<and> x1 (bbox (hd ex_adjacent_labels)) < ctrl_center_x (hd ex_adjacent_controls) 2
   \<and> filter_valid_controls ex_adjacent_controls ex_adjacent_labels 2 600
       = Inr (tl ex_adjacent_controls)"
  by code_simp

subsection \<open>Label association\<close>

lemma best_label_None:
  "best_label px py bs best = None \<longleftrightarrow>
     best = None \<and> (\<forall>b \<in> set bs. \<not> (0 < px - x1 (bbox b) \<and> \<bar>y0 (bbox b) - py\<bar> < 15))"
  by (induction bs arbitrary: best) (auto simp: Let_def split: option.splits)

lemma best_label_Some:
  "best_label px py bs best = Some (b, d) \<Longrightarrow>
     (best = Some (b, d)
      \<or> (b \<in> set bs \<and> 0 < px - x1 (bbox b) \<and> \<bar>y0 (bbox b) - py\<bar> < 15 \<and> d = px - x1 (bbox b)))
     \<and> (\<forall>b' \<in> set bs. 0 < px - x1 (bbox b') \<and> \<bar>y0 (bbox b') - py\<bar> < 15 \<longrightarrow> d \<le> px - x1 (bbox b'))
     \<and> (\<forall>bd. best = Some bd \<longrightarrow> d \<le> snd bd)"
proof (induction bs arbitrary: best)
  case Nil
  then show ?case by simp
next
  case (Cons a bs)
  let ?cand = "0 < px - x1 (bbox a) \<and> \<bar>y0 (bbox a) - py\<bar> < 15"
  let ?take = "?cand \<and> (case best of None \<Rightarrow> True | Some bd \<Rightarrow> px - x1 (bbox a) < snd bd)"
  let ?best' = "if ?take then Some (a, px - x1 (bbox a)) else best"
  have step: "best_label px py (a # bs) best = best_label px py bs ?best'"
    by (auto simp: Let_def)
  from Cons.prems step have r: "best_label px py bs ?best' = Some (b, d)" by simp
  note ih = Cons.IH [OF r]
  show ?case
  proof (cases ?take)
    case True
    with ih show ?thesis by (auto split: option.splits)
  next
    case False
    with ih show ?thesis by (auto split: option.splits)
  qed
qed

lemma map_control_label:
  assumes "sf \<noteq> 0"
  shows "((\<forall>b \<in> set blks. \<not> label_candidate c sf b) \<longrightarrow>
            label_block_id (map_control blks sf c) = label_block_id c
            \<and> label_text (map_control blks sf c) = label_text c)
         \<and> ((\<exists>b \<in> set blks. label_candidate c sf b) \<longrightarrow>
            (\<exists>b \<in> set blks. label_candidate c sf b
               \<and> (\<forall>b' \<in> set blks. label_candidate c sf b' \<longrightarrow> label_gap c sf b \<le> label_gap c sf b')
               \<and> label_block_id (map_control blks sf c) = Some (block_id b)
               \<and> label_text (map_control blks sf c) = Some (block_text b)))"
proof -
  define px where "px = real_of_int (x0 (cbbox c)) / sf"
  define py where "py = real_of_int (y0 (cbbox c)) / sf"
  have cand: "label_candidate c sf b \<longleftrightarrow> 0 < px - x1 (bbox b) \<and> \<bar>y0 (bbox b) - py\<bar> < 15" for b
    by (simp add: label_candidate_def label_gap_def px_def py_def)
  have gap: "label_gap c sf b = px - x1 (bbox b)" for b
    by (simp add: label_gap_def px_def)
  show ?thesis
  proof (cases "best_label px py blks None")
    case None
    then have "\<forall>b \<in> set blks. \<not> label_candidate c sf b"
      by (simp add: best_label_None cand)
    moreover have "label_block_id (map_control blks sf c) = label_block_id c
        \<and> label_text (map_control blks sf c) = label_text c"
      using None by (simp add: map_control_def Let_def px_def py_def)
    ultimately show ?thesis by blast
  next
    case (Some bd)
    obtain b d where bd: "bd = (b, d)" by (cases bd)
    from best_label_Some [of px py blks None b d] Some bd
    have b: "b \<in> set blks" "label_candidate c sf b"
      "\<forall>b' \<in> set blks. label_candidate c sf b' \<longrightarrow> label_gap c sf b \<le> label_gap c sf b'"
      by (auto simp: cand gap)
    have "label_block_id (map_control blks sf c) = Some (block_id b)
        \<and> label_text (map_control blks sf c) = Some (block_text b)"
      using Some bd by (simp add: map_control_def Let_def px_def py_def)
    with b show ?thesis by blast
  qed
qed

text \<open>
  Claim C4, as amended. For a scale factor that is not zero, label association returns one
  mapped control for each control. It considers only the blocks whose right edge is strictly
  to the left of the control's left edge and whose top is within 15 points of the control's
  top. When there is none the control gets no label; otherwise it gets the id and text of one
  of them whose horizontal gap is the smallest. The gap has no upper bound.
\<close>

theorem label_is_nearest_candidate:
  "sf \<noteq> 0 \<Longrightarrow>
   \<exists>mapped. map_controls_to_blocks controls blks sf = Inr mapped
     \<and> length mapped = length controls
     \<and> (\<forall>i < length controls.
          ((\<forall>b \<in> set blks. \<not> label_candidate (controls ! i) sf b) \<longrightarrow>
             label_block_id (mapped ! i) = label_block_id (controls ! i)
             \<and> label_text (mapped ! i) = label_text (controls ! i))
          \<and> ((\<exists>b \<in> set blks. label_candidate (controls ! i) sf b) \<longrightarrow>
             (\<exists>b \<in> set blks. label_candidate (controls ! i) sf b
                \<and> (\<forall>b' \<in> set blks. label_candidate (controls ! i) sf b'
                      \<longrightarrow> label_gap (controls ! i) sf b \<le> label_gap (controls ! i) sf b')
                \<and> label_block_id (mapped ! i) = Some (block_id b)
                \<and> label_text (mapped ! i) = Some (block_text b))))"
proof -
  assume sf: "sf \<noteq> 0"
  have "map_controls_to_blocks controls blks sf = Inr (map (map_control blks sf) controls)"
    using sf by (simp add: map_controls_to_blocks_def)
  moreover have "length (map (map_control blks sf) controls) = length controls" by simp
  moreover have "\<forall>i < length controls.
          ((\<forall>b \<in> set blks. \<not> label_candidate (controls ! i) sf b) \<longrightarrow>
             label_block_id (map (map_control blks sf) controls ! i) = label_block_id (controls ! i)
             \<and> label_text (map (map_control blks sf) controls ! i) = label_text (controls ! i))
          \<and> ((\<exists>b \<in> set blks. label_candidate (controls ! i) sf b) \<longrightarrow>
             (\<exists>b \<in> set blks. label_candidate (controls ! i) sf b
                \<and> (\<forall>b' \<in> set blks. label_candidate (controls ! i) sf b'
                      \<longrightarrow> label_gap (controls ! i) sf b \<le> label_gap (controls ! i) sf b')
                \<and> label_block_id (map (map_control blks sf) controls ! i) = Some (block_id b)
                \<and> label_text (map (map_control blks sf) controls ! i) = Some (block_text b)))"
    using map_control_label [OF sf, of blks] by simp
  ultimately show ?thesis by blast
qed

text \<open>
  The theorem at the checkbox with three blocks in its row: the label is the nearest block,
  ``or'', 10 points away.
\<close>

theorem label_is_nearest_candidate_witness:
  "(2::real) \<noteq> 0 \<and> (0::nat) < length [ex_far_control]
   \<and> (\<exists>b \<in> set ex_row_labels. label_candidate ex_far_control 2 b)
   \<and> map_sum id (map label_text) (map_controls_to_blocks [ex_far_control] ex_row_labels 2)
       = Inr [Some ''or'']
   \<and> (\<exists>mapped. map_controls_to_blocks [ex_far_control] ex_row_labels 2 = Inr mapped
         \<and> (\<exists>b \<in> set ex_row_labels. label_gap ex_far_control 2 b = 10
               \<and> label_block_id (mapped ! 0) = Some (block_id b)))"
proof -
  have h: "(2::real) \<noteq> 0" by simp
  have c: "\<exists>b \<in> set ex_row_labels. label_candidate ex_far_control 2 b"
    by (simp add: ex_row_labels_def label_candidate_def label_gap_def ex_far_control_def
        mk_checkbox_def mk_block_def)
  have gaps: "\<forall>b \<in> set ex_row_labels. label_candidate ex_far_control 2 b
                \<and> label_gap ex_far_control 2 b \<ge> 10
                \<and> (label_gap ex_far_control 2 b \<le> 10 \<longrightarrow> label_gap ex_far_control 2 b = 10)"
    by (simp add: ex_row_labels_def label_candidate_def label_gap_def ex_far_control_def
        mk_checkbox_def mk_block_def)
  have g10: "\<exists>b \<in> set ex_row_labels. label_gap ex_far_control 2 b = 10"
    by (simp add: ex_row_labels_def label_gap_def ex_far_control_def
        mk_checkbox_def mk_block_def)
  have t: "map_sum id (map label_text) (map_controls_to_blocks [ex_far_control] ex_row_labels 2)
       = Inr [Some ''or'']"
    by code_simp
  from label_is_nearest_candidate [OF h, of "[ex_far_control]" ex_row_labels]
  obtain mapped where m: "map_controls_to_blocks [ex_far_control] ex_row_labels 2 = Inr mapped"
    and all: "\<forall>i < length [ex_far_control].
          ((\<exists>b \<in> set ex_row_labels. label_candidate ([ex_far_control] ! i) 2 b) \<longrightarrow>
             (\<exists>b \<in> set ex_row_labels. label_candidate ([ex_far_control] ! i) 2 b
                \<and> (\<forall>b' \<in> set ex_row_labels. label_candidate ([ex_far_control] ! i) 2 b'
                      \<longrightarrow> label_gap ([ex_far_control] ! i) 2 b \<le> label_gap ([ex_far_control] ! i) 2 b')
                \<and> label_block_id (mapped ! i) = Some (block_id b)
                \<and> label_text (mapped ! i) = Some (block_text b)))"
    by blast
  from all c obtain b where b: "b \<in> set ex_row_labels"
    "\<forall>b' \<in> set ex_row_labels. label_candidate ex_far_control 2 b'
        \<longrightarrow> label_gap ex_far_control 2 b \<le> label_gap ex_far_control 2 b'"
    "label_block_id (mapped ! 0) = Some (block_id b)"
    by auto
  from g10 b(2) gaps have "label_gap ex_far_control 2 b \<le> 10" by fastforce
  with gaps b(1) have "label_gap ex_far_control 2 b = 10" by blast
  with b(1,3) m have
    "\<exists>mapped. map_controls_to_blocks [ex_far_control] ex_row_labels 2 = Inr mapped
         \<and> (\<exists>b \<in> set ex_row_labels. label_gap ex_far_control 2 b = 10
               \<and> label_block_id (mapped ! 0) = Some (block_id b))"
    by blast
  moreover have "(0::nat) < length [ex_far_control]" by simp
  ultimately show ?thesis using h c t by (intro conjI)
qed

text \<open>
  Claim C4 as stated fails: the only block in the row of the checkbox ends 450 points before
  it, three quarters of the page away, and is attached as its label.
\<close>

theorem far_block_attached:
  "label_gap ex_far_control 2 (hd ex_margin_label) = 450
   \<and> map_sum id (map label_block_id)
       (map_controls_to_blocks [ex_far_control] ex_margin_label 2) = Inr [Some 0]
   \<and> map_sum id (map label_text)
       (map_controls_to_blocks [ex_far_control] ex_margin_label 2) = Inr [Some ''1.'']"
  by code_simp

subsection \<open>Degenerate input\<close>

text \<open>
  On zero-length input the stages other than span detection return their empty result: row
  grouping and both position clusterings return the empty list, grid building returns no
  grid when either list of lines is empty, deduplication returns the empty list, row-to-grid
  mapping and column detection return the empty list, band assignment returns no rows,
  control filtering and label association return the empty list, and the classifier returns
  the text classification with empty signals and the reason ``no blocks''. Span detection
  returns no spans when there is no grid and when the grid has no cells.
\<close>

lemma stages_on_empty_input:
  "group_into_rows [] y_tolerance = []
   \<and> cluster_positions [] tolerance = []
   \<and> cluster_centers [] tol = []
   \<and> build_cell_grid_from_lines [] v_lines tol = None
   \<and> build_cell_grid_from_lines h_lines [] tol = None
   \<and> detect_spans None = Inr []
   \<and> detect_spans (Some (g\<lparr>cells := []\<rparr>)) = Inr []
   \<and> remove_overlapping [] th = []
   \<and> map_row_to_grid r [] = []
   \<and> detect_columns [] = []
   \<and> detect_row_bands [] min_gap min_row_height = []
   \<and> assign_blocks_to_bands blks [] sf = Inr None
   \<and> assign_text_to_cells None blks sf = None
   \<and> filter_valid_controls [] blks sf pw = Inr []
   \<and> map_controls_to_blocks [] blks sf = Inr []
   \<and> classify_page_type [] columns pw ph n
       = Inr \<lparr>page_type = Text, signals = None, reason = ''no blocks''\<rparr>"
  by (simp add: group_into_rows_def cluster_positions_def cluster_centers_def
      build_cell_grid_from_lines_def detect_spans_def remove_overlapping_def
      map_row_to_grid_def detect_columns_def detect_row_bands_def
      assign_blocks_to_bands_def assign_text_to_cells_def filter_valid_controls_def
      size_valid_def check_controls_aligned_def map_controls_to_blocks_def
      classify_page_type_def)

text \<open>
  Claim C8 fails on the code. With no text blocks \<open>assign_text_to_cells\<close> returns the grid as
  \<open>build_cell_grid_from_lines\<close> built it, before any cell has been given its \<open>content\<close> key;
  on that grid, here the grid of two rows and two columns, \<open>detect_spans\<close> reads
  \<open>cell["content"]\<close> of the first cell and raises \<open>KeyError\<close>.
\<close>

theorem detect_spans_raises_without_text:
  "map_option (\<lambda>g. (num_rows g, num_cols g, map (map content) (cells g)))
       (assign_text_to_cells (build_cell_grid_from_lines ex_h_lines ex_v_lines 10) [] 1)
     = Some (2, 2, [[None, None], [None, None]])
   \<and> assign_text_to_cells (build_cell_grid_from_lines ex_h_lines ex_v_lines 10) [] 1
       = build_cell_grid_from_lines ex_h_lines ex_v_lines 10
   \<and> detect_spans
        (assign_text_to_cells (build_cell_grid_from_lines ex_h_lines ex_v_lines 10) [] 1)
       = Inl KeyError"
  by code_simp

end
